theory Spec2Isabelle
  imports Complex_Main
begin

section \<open>Python values used by the dashboard\<close>

text \<open>
  A Python \<open>str\<close> is a sequence of Unicode code points, so it is embedded as a list of
  code points.  The Korean literals of \<open>app.py\<close> are written by their code points;
  ASCII literals are injected with \<open>ascii\<close>.
\<close>

type_synonym pystr = "nat list"

definition ascii :: "string \<Rightarrow> pystr" where
  "ascii s = map (of_char :: char \<Rightarrow> nat) s"

text \<open>The unit names: the minor unit, ten thousand won (the syllable U+B9CC), and the
  major unit, won (U+C6D0); the suffix for a hundred million (U+C5B5) and the currency
  sign (U+20A9).\<close>

definition man :: pystr where "man = [47564]"
definition won :: pystr where "won = [50896]"
definition eok :: pystr where "eok = [50613]"
definition won_sign :: pystr where "won_sign = [8361]"

text \<open>The exceptions that the code can meet: \<open>ReError\<close> is \<open>re.error\<close>, \<open>ImageError\<close> is
  what \<open>st.image\<close> raises for a source that it cannot show.\<close>

datatype error =
  JSONDecodeError | DatabaseError | KeyError | IndexError | ValueError | OverflowError
  | ReError | ImageError

text \<open>
  A cell of a numeric column, as the lambda of \<open>Series.apply\<close> receives it: \<open>None\<close>,
  the float NaN, a Python int, or a Python float.  A float is a finite double, given by
  its exact value; a number produced by the code is given by its exact value, too.
\<close>

datatype pyval = PyNone | NaN | PyInt int | PyFloat rat

text \<open>\<open>int(x)\<close> on a number truncates toward zero.\<close>

definition py_int :: "rat \<Rightarrow> int" where
  "py_int q = (if 0 \<le> q then \<lfloor>q\<rfloor> else \<lceil>q\<rceil>)"

text \<open>\<open>x // y\<close> and \<open>x % y\<close> (floor division and its remainder).\<close>

definition py_floordiv :: "rat \<Rightarrow> rat \<Rightarrow> rat" where
  "py_floordiv x y = of_int \<lfloor>x / y\<rfloor>"

definition py_mod :: "rat \<Rightarrow> rat \<Rightarrow> rat" where
  "py_mod x y = x - y * of_int \<lfloor>x / y\<rfloor>"

section \<open>Float arithmetic\<close>

text \<open>Rounding to the nearest integer, ties to even.\<close>

definition round_half_even :: "rat \<Rightarrow> int" where
  "round_half_even q =
     (let f = \<lfloor>q\<rfloor>; d = q - of_int f
      in if d < 1 / 2 then f
         else if 1 / 2 < d then f + 1
         else if even f then f else f + 1)"

text \<open>The binary exponent of a positive number: \<open>2 ^ e \<le> q < 2 ^ (e + 1)\<close>.\<close>

function ilog2 :: "rat \<Rightarrow> int" where
  "ilog2 q =
     (if q < 1 then (if 0 < q then ilog2 (2 * q) - 1 else 0)
      else if 2 \<le> q then ilog2 (q / 2) + 1
      else 0)"
  by pat_completeness auto
termination
proof (relation "measure (\<lambda>q. if q < 1 then nat \<lceil>1 / q\<rceil> else nat \<lfloor>q\<rfloor>)")
  show "wf (measure (\<lambda>q::rat. if q < 1 then nat \<lceil>1 / q\<rceil> else nat \<lfloor>q\<rfloor>))" by simp
next
  fix q :: rat
  assume a: "q < 1" "0 < q"
  then have x: "1 < 1 / q" by simp
  then have c: "2 \<le> \<lceil>1 / q\<rceil>" by linarith
  show "(2 * q, q) \<in> measure (\<lambda>q. if q < 1 then nat \<lceil>1 / q\<rceil> else nat \<lfloor>q\<rfloor>)"
  proof (cases "2 * q < 1")
    case True
    then have "2 < 1 / q" using a by (simp add: field_simps)
    then have "1 / (2 * q) \<le> 1 / q - 1" using a by (simp add: field_simps)
    then have "\<lceil>1 / (2 * q)\<rceil> \<le> \<lceil>1 / q - 1\<rceil>" by (rule ceiling_mono)
    then have "\<lceil>1 / (2 * q)\<rceil> < \<lceil>1 / q\<rceil>" by simp
    moreover have "0 < \<lceil>1 / q\<rceil>" using c by linarith
    ultimately show ?thesis using True a by simp
  next
    case False
    then have "1 \<le> 2 * q" "2 * q < 2" using a by simp_all
    then have "\<lfloor>2 * q\<rfloor> = 1" by linarith
    with False a c show ?thesis by simp
  qed
next
  fix q :: rat
  assume a: "\<not> q < 1" "2 \<le> q"
  then have "q / 2 \<le> q - 1" by simp
  then have "\<lfloor>q / 2\<rfloor> \<le> \<lfloor>q - 1\<rfloor>" by (rule floor_mono)
  then have "\<lfloor>q / 2\<rfloor> < \<lfloor>q\<rfloor>" by simp
  moreover have "0 < \<lfloor>q\<rfloor>" using a by linarith
  moreover have "\<not> q / 2 < 1" using a by simp
  ultimately show "(q / 2, q) \<in> measure (\<lambda>q. if q < 1 then nat \<lceil>1 / q\<rceil> else nat \<lfloor>q\<rfloor>)"
    by simp
qed

declare ilog2.simps [simp del]

definition pow2 :: "int \<Rightarrow> rat" where
  "pow2 e = (if 0 \<le> e then 2 ^ nat e else 1 / 2 ^ nat (- e))"

text \<open>
  The result of a float operation whose exact result is \<open>q\<close>: \<open>q\<close> rounded to a
  significand of 53 bits, ties to even (to a multiple of \<open>2 ^ (- 1074)\<close> in the
  subnormal range).  The operation overflows, to an infinity, when the rounded value
  reaches \<open>2 ^ 1024\<close>.  The two zeros are not told apart.
\<close>

definition fl :: "rat \<Rightarrow> rat" where
  "fl q =
     (if q = 0 then 0
      else (let ulp = pow2 (max (ilog2 \<bar>q\<bar>) (- 1022) - 52)
            in of_int (round_half_even (q / ulp)) * ulp))"

definition overflows :: "rat \<Rightarrow> bool" where
  "overflows q = (2 ^ 1024 \<le> \<bar>fl q\<bar>)"

section \<open>convert_price\<close>

text \<open>
  \<^verbatim>\<open>
  def convert_price(val, to_unit=MAN):
      if pd.isna(val) or val is None:
          return 0
      if to_unit == WON:
          return int(val * 1000)
      else:
          return val / 10
  \<close>
\<close>

text \<open>
  On an int, \<open>val * 1000\<close> is exact and \<open>val / 10\<close> is the correctly rounded quotient,
  which raises \<open>OverflowError\<close> when it is too large for a float.  On a float, both are
  float operations; a product that overflows is an infinity, on which \<open>int\<close> raises
  \<open>OverflowError\<close>.
\<close>

definition convert_price :: "pyval \<Rightarrow> pystr \<Rightarrow> error + rat" where
  "convert_price val to_unit =
     (case val of
        PyNone \<Rightarrow> Inr 0
      | NaN \<Rightarrow> Inr 0
      | PyInt n \<Rightarrow>
          if to_unit = won then Inr (of_int (n * 1000))
          else if overflows (of_int n / 10) then Inl OverflowError
          else Inr (fl (of_int n / 10))
      | PyFloat x \<Rightarrow>
          if to_unit = won
          then (if overflows (x * 1000) then Inl OverflowError
                else Inr (of_int (py_int (fl (x * 1000)))))
          else Inr (fl (x / 10)))"

section \<open>Number formatting\<close>

text \<open>Decimal digits of a natural number, most significant first.\<close>

fun decimal :: "nat \<Rightarrow> pystr" where
  "decimal n = (if n < 10 then [48 + n] else decimal (n div 10) @ [48 + n mod 10])"

declare decimal.simps [simp del]

text \<open>A comma after every third digit, counted from the least significant one; the
  argument is the digit string reversed.\<close>

fun group_rev :: "pystr \<Rightarrow> pystr" where
  "group_rev (a # b # c # d # ds) = a # b # c # 44 # group_rev (d # ds)"
| "group_rev ds = ds"

definition grouped :: "nat \<Rightarrow> pystr" where
  "grouped n = rev (group_rev (rev (decimal n)))"

text \<open>\<open>f"{n}"\<close> and \<open>f"{n:,}"\<close> for an int \<open>n\<close>.\<close>

definition fmt_int :: "int \<Rightarrow> pystr" where
  "fmt_int n = (if n < 0 then [45] else []) @ decimal (nat \<bar>n\<bar>)"

definition fmt_int_comma :: "int \<Rightarrow> pystr" where
  "fmt_int_comma n = (if n < 0 then [45] else []) @ grouped (nat \<bar>n\<bar>)"

text \<open>\<open>f"{val:,.0f}"\<close>: no fractional digits (the \<open>f\<close> presentation type rounds ties to
  even), thousands separated by commas.\<close>

definition fmt_comma_0f :: "rat \<Rightarrow> pystr" where
  "fmt_comma_0f v = (if v < 0 then [45] else []) @ grouped (nat (round_half_even \<bar>v\<bar>))"

section \<open>format_price_display\<close>

text \<open>
  \<^verbatim>\<open>
  def format_price_display(val, unit=MAN):
      if val == 0: return "-"
      if unit == MAN:
          if val >= 10000:
              eok = int(val // 10000)
              man = int(val % 10000)
              return f"{eok}EOK {man:,}MAN" if man > 0 else f"{eok}EOK"
          return f"{val:,.0f}MAN"
      else:
          return f"WON_SIGN{val:,.0f}"
  \<close>
  Every caller passes a number (a cell of a derived display column, or the median of
  one), so the argument is a rational.
\<close>

definition format_price_display :: "rat \<Rightarrow> pystr \<Rightarrow> pystr" where
  "format_price_display val unit =
     (if val = 0 then ascii ''-''
      else if unit = man then
        (if 10000 \<le> val then
           (let eok_n = py_int (py_floordiv val 10000);
                man_n = py_int (py_mod val 10000)
            in if 0 < man_n
               then fmt_int eok_n @ eok @ ascii '' '' @ fmt_int_comma man_n @ man
               else fmt_int eok_n @ eok)
         else fmt_comma_0f val @ man)
      else won_sign @ fmt_comma_0f val)"

section \<open>The table of listings\<close>

text \<open>
  The literals of \<open>app.py\<close>, by code point: the "all categories" entry of the category
  select box, the unit choice for ten thousand won, the title marker of the comment
  mapping, and the texts shown by the views.
\<close>

definition all_label :: pystr where "all_label = [51204, 52404]"
definition manwon :: pystr where "manwon = [47564, 50896]"
definition marker :: pystr where "marker = [51060, 52492]"

definition preparing_text :: pystr where
  "preparing_text = [49345, 49464, 32, 53076, 47704, 53944, 32, 51456, 48708, 32, 51473,
     51077, 45768, 45796, 46]"

definition unavailable_text :: pystr where
  "unavailable_text = [51473, 44060, 49324, 32, 49345, 49464, 32, 49444, 47749, 51060, 32,
     46321, 47197, 46104, 51648, 32, 50506, 51008, 32, 47588, 47932, 51077, 45768, 45796, 46]"

definition count_suffix :: pystr where "count_suffix = [32, 44148]"
definition area_suffix :: pystr where "area_suffix = [32, 13217]"
definition unit_suffix :: pystr where "unit_suffix = [45800, 50948]"
definition label_count :: pystr where "label_count = [52628, 52380, 32, 47588, 47932]"
definition label_rent :: pystr where "label_rent = [50900, 49464, 32, 51473, 50521, 44050, 32, 40]"
definition label_deposit :: pystr where
  "label_deposit = [48372, 51613, 44552, 32, 51473, 50521, 44050, 32, 40]"
definition label_area :: pystr where
  "label_area = [54217, 44512, 32, 47732, 51201, 32, 40, 13217, 41]"
definition name_deposit :: pystr where "name_deposit = [48372, 51613, 44552]"
definition name_rent :: pystr where "name_rent = [50900, 49464]"
definition name_premium :: pystr where "name_premium = [44428, 47532, 44552]"
definition name_maintenance :: pystr where "name_maintenance = [44288, 47532, 48708]"

definition no_chart_text :: pystr where
  "no_chart_text = [49884, 44033, 54868, 54624, 32, 45936, 51060, 53552, 44032, 32, 50630,
     49845, 45768, 45796, 46]"

definition no_trend_text :: pystr where
  "no_trend_text = [47588, 47932, 32, 46321, 47197, 32, 52628, 51060, 47484, 32, 49884,
     44033, 54868, 54624, 32, 45936, 51060, 53552, 44032, 32, 50630, 49845, 45768, 45796, 46]"

definition no_result_text :: pystr where
  "no_result_text = [54596, 53552, 47553, 46108, 32, 44208, 44284, 44032, 32, 50630, 49845,
     45768, 45796, 46]"

definition no_data_warning :: pystr where
  "no_data_warning = [68, 66, 50640, 49436, 32, 47588, 47932, 32, 45936, 51060, 53552,
     47484, 32, 44032, 51256, 50724, 51648, 32, 47803, 54664, 49845, 45768, 45796, 46, 32,
     44221, 47196, 47484, 32, 54869, 51064, 54644, 32, 51452, 49464, 50836, 46]"

text \<open>A JSON value, and a cell of a photo-URL column: SQL NULL, a string, or a list.\<close>

datatype json =
  JNull | JBool bool | JNum rat | JStr pystr | JArr "json list"
  | JObj "(pystr \<times> json) list"

datatype cell = Null | Text pystr | Items "json list"

text \<open>The column names that the code looks for in \<open>df.columns\<close>.\<close>

datatype column =
  C_title | C_business_middle_code_name | C_near_subway_station | C_is_premium_closed
  | C_size | C_floor
  | C_deposit | C_monthly_rent | C_premium | C_maintenance_fee | C_sale
  | C_created_date_utc | C_small_photo_urls | C_origin_photo_urls | C_preview_photo_url
  | C_deposit_disp | C_monthly_rent_disp | C_premium_disp | C_maintenance_fee_disp
  | C_sale_disp | C_regDate

text \<open>
  One row.  A field is meaningful when its column is among the columns of the table.
  \<open>near_subway_station\<close> and \<open>is_premium_closed\<close> are \<open>None\<close> for SQL NULL (the flag is
  stored as 0/1, which compares equal to \<open>False\<close>/\<open>True\<close>); \<open>size_val\<close> (the column
  \<open>size\<close>) is \<open>None\<close> for NaN; \<open>created_date_utc\<close> is the parsed timestamp as a day
  number and the seconds of that day, \<open>None\<close> for NaT; \<open>preview_photo_url\<close> is \<open>None\<close>
  for SQL NULL.
\<close>

record listing =
  title :: pystr
  business_middle_code_name :: pystr
  near_subway_station :: "pystr option"
  is_premium_closed :: "bool option"
  size_val :: "rat option"
  deposit :: pyval
  monthly_rent :: pyval
  premium :: pyval
  maintenance_fee :: pyval
  sale :: pyval
  created_date_utc :: "(int \<times> nat) option"
  small_photo_urls :: cell
  origin_photo_urls :: cell
  preview_photo_url :: "pystr option"
  deposit_disp :: rat
  monthly_rent_disp :: rat
  premium_disp :: rat
  maintenance_fee_disp :: rat
  sale_disp :: rat
  regDate :: "int option"

record dataframe =
  columns :: "column set"
  rows :: "listing list"

definition empty_frame :: dataframe where
  "empty_frame = \<lparr>columns = {}, rows = []\<rparr>"

text \<open>\<open>df.empty\<close>: an axis of length 0.\<close>

definition empty :: "dataframe \<Rightarrow> bool" where
  "empty df = (rows df = [] \<or> columns df = {})"

section \<open>load_db_data\<close>

text \<open>
  \<^verbatim>\<open>
  json_cols = ['small_photo_urls', 'origin_photo_urls']
  for col in json_cols:
      if col in df.columns:
          df[col] = df[col].apply(lambda x: json.loads(x)
              if isinstance(x, str) and x.startswith('[') else (x if x else []))
  return df
  except Exception as e:
      st.error(...)
      return pd.DataFrame()
  \<close>
  \<open>json.loads\<close> is the library's: it is a parameter \<open>loads\<close>, with \<open>None\<close> where it raises.
  It is called on texts that start with \<open>[\<close> only, where a JSON value is an array, so
  its result is the list of the elements.
\<close>

type_synonym json_loads = "pystr \<Rightarrow> json list option"

definition decode_cell :: "json_loads \<Rightarrow> cell \<Rightarrow> error + cell" where
  "decode_cell loads x =
     (case x of
        Text s \<Rightarrow>
          if take 1 s = ascii ''[''
          then (case loads s of None \<Rightarrow> Inl JSONDecodeError | Some xs \<Rightarrow> Inr (Items xs))
          else if s \<noteq> [] then Inr (Text s) else Inr (Items [])
      | Null \<Rightarrow> Inr (Items [])
      | Items xs \<Rightarrow> if xs \<noteq> [] then Inr (Items xs) else Inr (Items []))"

definition json_cols :: "column list" where
  "json_cols = [C_small_photo_urls, C_origin_photo_urls]"

definition decode_row ::
  "json_loads \<Rightarrow> column \<Rightarrow> listing \<Rightarrow> error + listing" where
  "decode_row loads col r =
     (if col = C_small_photo_urls
      then (case decode_cell loads (small_photo_urls r) of
              Inl e \<Rightarrow> Inl e | Inr c \<Rightarrow> Inr (r\<lparr>small_photo_urls := c\<rparr>))
      else (case decode_cell loads (origin_photo_urls r) of
              Inl e \<Rightarrow> Inl e | Inr c \<Rightarrow> Inr (r\<lparr>origin_photo_urls := c\<rparr>)))"

text \<open>\<open>Series.apply\<close>: the first exception ends the pass.\<close>

fun apply_rows :: "(listing \<Rightarrow> error + listing) \<Rightarrow> listing list \<Rightarrow> error + listing list" where
  "apply_rows f [] = Inr []"
| "apply_rows f (r # rs) =
     (case f r of
        Inl e \<Rightarrow> Inl e
      | Inr r' \<Rightarrow> (case apply_rows f rs of Inl e \<Rightarrow> Inl e | Inr rs' \<Rightarrow> Inr (r' # rs')))"

definition decode_column ::
  "json_loads \<Rightarrow> column \<Rightarrow> dataframe \<Rightarrow> error + dataframe" where
  "decode_column loads col df =
     (if col \<in> columns df
      then (case apply_rows (decode_row loads col) (rows df) of
              Inl e \<Rightarrow> Inl e | Inr rs \<Rightarrow> Inr (df\<lparr>rows := rs\<rparr>))
      else Inr df)"

fun decode_columns ::
  "json_loads \<Rightarrow> column list \<Rightarrow> dataframe \<Rightarrow> error + dataframe" where
  "decode_columns loads [] df = Inr df"
| "decode_columns loads (col # cols) df =
     (case decode_column loads col df of
        Inl e \<Rightarrow> Inl e | Inr df' \<Rightarrow> decode_columns loads cols df')"

text \<open>The result of the call: the table returned to the caller and the error shown with
  \<open>st.error\<close>, if any.  \<open>query\<close> is the outcome of \<open>read_sql_query\<close>, \<open>None\<close> where it
  raises.\<close>

record load_result =
  reported :: "error option"
  frame :: dataframe

definition load_db_data :: "json_loads \<Rightarrow> dataframe option \<Rightarrow> load_result" where
  "load_db_data loads query =
     (case query of
        None \<Rightarrow> \<lparr>reported = Some DatabaseError, frame = empty_frame\<rparr>
      | Some df \<Rightarrow>
          (case decode_columns loads json_cols df of
             Inl e \<Rightarrow> \<lparr>reported = Some e, frame = empty_frame\<rparr>
           | Inr df' \<Rightarrow> \<lparr>reported = None, frame = df'\<rparr>))"

section \<open>Display columns\<close>

definition target_unit_of :: "pystr \<Rightarrow> pystr" where
  "target_unit_of unit_choice = (if unit_choice = won then won else man)"

datatype price_field = F_deposit | F_monthly_rent | F_premium | F_maintenance_fee | F_sale

definition price_cols :: "price_field list" where
  "price_cols = [F_deposit, F_monthly_rent, F_premium, F_maintenance_fee, F_sale]"

fun raw_col :: "price_field \<Rightarrow> column" where
  "raw_col F_deposit = C_deposit"
| "raw_col F_monthly_rent = C_monthly_rent"
| "raw_col F_premium = C_premium"
| "raw_col F_maintenance_fee = C_maintenance_fee"
| "raw_col F_sale = C_sale"

fun disp_col :: "price_field \<Rightarrow> column" where
  "disp_col F_deposit = C_deposit_disp"
| "disp_col F_monthly_rent = C_monthly_rent_disp"
| "disp_col F_premium = C_premium_disp"
| "disp_col F_maintenance_fee = C_maintenance_fee_disp"
| "disp_col F_sale = C_sale_disp"

fun raw_val :: "price_field \<Rightarrow> listing \<Rightarrow> pyval" where
  "raw_val F_deposit r = deposit r"
| "raw_val F_monthly_rent r = monthly_rent r"
| "raw_val F_premium r = premium r"
| "raw_val F_maintenance_fee r = maintenance_fee r"
| "raw_val F_sale r = sale r"

fun disp_val :: "price_field \<Rightarrow> listing \<Rightarrow> rat" where
  "disp_val F_deposit r = deposit_disp r"
| "disp_val F_monthly_rent r = monthly_rent_disp r"
| "disp_val F_premium r = premium_disp r"
| "disp_val F_maintenance_fee r = maintenance_fee_disp r"
| "disp_val F_sale r = sale_disp r"

fun set_disp :: "price_field \<Rightarrow> rat \<Rightarrow> listing \<Rightarrow> listing" where
  "set_disp F_deposit v r = r\<lparr>deposit_disp := v\<rparr>"
| "set_disp F_monthly_rent v r = r\<lparr>monthly_rent_disp := v\<rparr>"
| "set_disp F_premium v r = r\<lparr>premium_disp := v\<rparr>"
| "set_disp F_maintenance_fee v r = r\<lparr>maintenance_fee_disp := v\<rparr>"
| "set_disp F_sale v r = r\<lparr>sale_disp := v\<rparr>"

text \<open>
  \<^verbatim>\<open>
  for col in price_cols:
      if col in df.columns:
          df[f'{col}_disp'] = df[col].apply(lambda x: convert_price(x, target_unit))
  if 'created_date_utc' in df.columns:
      df['regDate'] = pd.to_datetime(df['created_date_utc']).dt.date
  \<close>
\<close>

definition convert_row :: "pystr \<Rightarrow> price_field \<Rightarrow> listing \<Rightarrow> error + listing" where
  "convert_row target_unit f r =
     (case convert_price (raw_val f r) target_unit of
        Inl e \<Rightarrow> Inl e | Inr v \<Rightarrow> Inr (set_disp f v r))"

definition add_disp :: "pystr \<Rightarrow> price_field \<Rightarrow> dataframe \<Rightarrow> error + dataframe" where
  "add_disp target_unit f df =
     (if raw_col f \<in> columns df
      then (case apply_rows (convert_row target_unit f) (rows df) of
              Inl e \<Rightarrow> Inl e
            | Inr rs \<Rightarrow> Inr (df\<lparr>columns := insert (disp_col f) (columns df), rows := rs\<rparr>))
      else Inr df)"

fun add_disps :: "pystr \<Rightarrow> price_field list \<Rightarrow> dataframe \<Rightarrow> error + dataframe" where
  "add_disps target_unit [] df = Inr df"
| "add_disps target_unit (f # fs) df =
     (case add_disp target_unit f df of
        Inl e \<Rightarrow> Inl e | Inr df' \<Rightarrow> add_disps target_unit fs df')"

definition add_regDate :: "dataframe \<Rightarrow> dataframe" where
  "add_regDate df =
     (if C_created_date_utc \<in> columns df
      then df\<lparr>columns := insert C_regDate (columns df),
              rows := map (\<lambda>r. r\<lparr>regDate := map_option fst (created_date_utc r)\<rparr>) (rows df)\<rparr>
      else df)"

definition preprocess :: "pystr \<Rightarrow> dataframe \<Rightarrow> error + dataframe" where
  "preprocess target_unit raw_df =
     (case add_disps target_unit price_cols raw_df of
        Inl e \<Rightarrow> Inl e | Inr df \<Rightarrow> Inr (add_regDate df))"

section \<open>Sidebar: the filter criteria\<close>

text \<open>The state of the widgets, as the user left them.\<close>

record widgets =
  unit_radio :: pystr
  industry_select :: pystr
  station_text :: pystr
  hide_checkbox :: bool
  rent_slider :: "rat \<times> rat"
  detail_select :: pystr

text \<open>A select box or radio group returns one of its options, the first one unless the
  user chose another.\<close>

definition selectbox :: "'a list \<Rightarrow> 'a \<Rightarrow> 'a option" where
  "selectbox options chosen =
     (if chosen \<in> set options then Some chosen
      else (case options of [] \<Rightarrow> None | x # _ \<Rightarrow> Some x))"

definition unit_choice_of :: "widgets \<Rightarrow> pystr" where
  "unit_choice_of w = (if unit_radio w = won then won else manwon)"

text \<open>\<open>Series.min()\<close> and \<open>Series.max()\<close>: \<open>None\<close> is the NaN of an empty column.\<close>

definition col_min :: "rat list \<Rightarrow> rat option" where
  "col_min xs = (case xs of [] \<Rightarrow> None | x # ys \<Rightarrow> Some (fold min ys x))"

definition col_max :: "rat list \<Rightarrow> rat option" where
  "col_max xs = (case xs of [] \<Rightarrow> None | x # ys \<Rightarrow> Some (fold max ys x))"

record criteria =
  sel_ind :: pystr
  search_station :: pystr
  hide_premium_closed :: bool
  rent_range :: "(rat \<times> rat) option"

text \<open>
  \<^verbatim>\<open>
  if col_ind in df.columns:
      industries = [ALL] + sorted(df[col_ind].unique().tolist())
      sel_ind = st.selectbox(..., industries)
  else:
      sel_ind = ALL
  search_station = st.text_input(...)
  hide_premium_closed = False
  if 'is_premium_closed' in df.columns:
      hide_premium_closed = st.checkbox(...)
  if 'monthly_rent_disp' in df.columns:
      min_rent = float(df['monthly_rent_disp'].min())
      max_rent = float(df['monthly_rent_disp'].max())
      if min_rent < max_rent:
          rent_range = st.slider(..., min_rent, max_rent, (min_rent, max_rent))
      else:
          rent_range = (min_rent, max_rent)
  else:
      rent_range = (0, 0)
  \<close>
  A range of \<open>None\<close> stands for NaN bounds, which no value satisfies.
\<close>

definition sel_ind_of :: "widgets \<Rightarrow> dataframe \<Rightarrow> pystr" where
  "sel_ind_of w df =
     (if C_business_middle_code_name \<in> columns df
      then (if industry_select w \<in> set (map business_middle_code_name (rows df))
            then industry_select w else all_label)
      else all_label)"

definition rent_range_of :: "widgets \<Rightarrow> dataframe \<Rightarrow> (rat \<times> rat) option" where
  "rent_range_of w df =
     (if C_monthly_rent_disp \<in> columns df
      then (case col_min (map monthly_rent_disp (rows df)) of
              None \<Rightarrow> None
            | Some min_rent \<Rightarrow>
                (case col_max (map monthly_rent_disp (rows df)) of
                   None \<Rightarrow> None
                 | Some max_rent \<Rightarrow>
                     if min_rent < max_rent then Some (rent_slider w)
                     else Some (min_rent, max_rent)))
      else Some (0, 0))"

definition sidebar :: "widgets \<Rightarrow> dataframe \<Rightarrow> criteria" where
  "sidebar w df =
     \<lparr>sel_ind = sel_ind_of w df,
      search_station = station_text w,
      hide_premium_closed = (C_is_premium_closed \<in> columns df \<and> hide_checkbox w),
      rent_range = rent_range_of w df\<rparr>"

section \<open>Searching text\<close>

text \<open>\<open>sub in s\<close> on Python strings.\<close>

fun starts_with :: "pystr \<Rightarrow> pystr \<Rightarrow> bool" where
  "starts_with s [] = True"
| "starts_with [] (c # sub) = False"
| "starts_with (x # s) (c # sub) = (x = c \<and> starts_with s sub)"

fun py_in :: "pystr \<Rightarrow> pystr \<Rightarrow> bool" where
  "py_in sub [] = (sub = [])"
| "py_in sub (x # s) = (starts_with (x # s) sub \<or> py_in sub s)"

text \<open>
  \<open>Series.str.contains(pat, na=False)\<close> compiles \<open>pat\<close> with \<open>re.compile\<close> (its default is
  \<open>regex=True\<close>) and keeps the rows where the \<open>search\<close> of the compiled pattern finds a
  match; a missing value counts as no match.  \<open>re.compile\<close> is the library's: it is a
  parameter, which answers \<open>None\<close> where it raises \<open>re.error\<close> and otherwise the test
  "\<open>search\<close> finds a match in this string".
\<close>

type_synonym re_compile = "pystr \<Rightarrow> (pystr \<Rightarrow> bool) option"

definition str_contains :: "(pystr \<Rightarrow> bool) \<Rightarrow> pystr option \<Rightarrow> bool" where
  "str_contains found x = (case x of None \<Rightarrow> False | Some s \<Rightarrow> found s)"

section \<open>The filter\<close>

text \<open>
  \<^verbatim>\<open>
  f_df = df.copy()
  if sel_ind != ALL: f_df = f_df[f_df['business_middle_code_name'] == sel_ind]
  if search_station and 'near_subway_station' in f_df.columns:
      f_df = f_df[f_df['near_subway_station'].str.contains(search_station, na=False)]
  if hide_premium_closed and 'is_premium_closed' in f_df.columns:
      f_df = f_df[f_df['is_premium_closed'] == False]
  if 'monthly_rent_disp' in f_df.columns:
      f_df = f_df[(f_df['monthly_rent_disp'] >= rent_range[0])
                  & (f_df['monthly_rent_disp'] <= rent_range[1])]
  \<close>
\<close>

definition keep :: "(listing \<Rightarrow> bool) \<Rightarrow> dataframe \<Rightarrow> dataframe" where
  "keep p df = df\<lparr>rows := filter p (rows df)\<rparr>"

definition in_range :: "(rat \<times> rat) option \<Rightarrow> rat \<Rightarrow> bool" where
  "in_range rng v = (case rng of None \<Rightarrow> False | Some (lo, hi) \<Rightarrow> lo \<le> v \<and> v \<le> hi)"

definition filter_industry :: "criteria \<Rightarrow> dataframe \<Rightarrow> error + dataframe" where
  "filter_industry c df =
     (if sel_ind c \<noteq> all_label
      then (if C_business_middle_code_name \<in> columns df
            then Inr (keep (\<lambda>r. business_middle_code_name r = sel_ind c) df)
            else Inl KeyError)
      else Inr df)"

definition filter_station :: "re_compile \<Rightarrow> criteria \<Rightarrow> dataframe \<Rightarrow> error + dataframe" where
  "filter_station rc c df =
     (if search_station c \<noteq> [] \<and> C_near_subway_station \<in> columns df
      then (case rc (search_station c) of
              None \<Rightarrow> Inl ReError
            | Some found \<Rightarrow> Inr (keep (\<lambda>r. str_contains found (near_subway_station r)) df))
      else Inr df)"

definition filter_premium :: "criteria \<Rightarrow> dataframe \<Rightarrow> error + dataframe" where
  "filter_premium c df =
     (if hide_premium_closed c \<and> C_is_premium_closed \<in> columns df
      then Inr (keep (\<lambda>r. is_premium_closed r = Some False) df)
      else Inr df)"

definition filter_rent :: "criteria \<Rightarrow> dataframe \<Rightarrow> error + dataframe" where
  "filter_rent c df =
     (if C_monthly_rent_disp \<in> columns df
      then Inr (keep (\<lambda>r. in_range (rent_range c) (monthly_rent_disp r)) df)
      else Inr df)"

text \<open>The four filter statements, named, so that they can be run in any order; \<open>f_df\<close>
  runs them in the order of the script.\<close>

datatype step = ByIndustry | ByStation | ByPremium | ByRent

fun apply_step :: "re_compile \<Rightarrow> criteria \<Rightarrow> step \<Rightarrow> dataframe \<Rightarrow> error + dataframe" where
  "apply_step rc c ByIndustry = filter_industry c"
| "apply_step rc c ByStation = filter_station rc c"
| "apply_step rc c ByPremium = filter_premium c"
| "apply_step rc c ByRent = filter_rent c"

fun run_steps ::
  "re_compile \<Rightarrow> criteria \<Rightarrow> step list \<Rightarrow> dataframe \<Rightarrow> error + dataframe" where
  "run_steps rc c [] df = Inr df"
| "run_steps rc c (s # ss) df =
     (case apply_step rc c s df of Inl e \<Rightarrow> Inl e | Inr df' \<Rightarrow> run_steps rc c ss df')"

definition filter_steps :: "step list" where
  "filter_steps = [ByIndustry, ByStation, ByPremium, ByRent]"

definition f_df :: "re_compile \<Rightarrow> criteria \<Rightarrow> dataframe \<Rightarrow> error + dataframe" where
  "f_df rc c df = run_steps rc c filter_steps df"

section \<open>Aggregations and views\<close>

text \<open>\<open>Series.median()\<close> and \<open>Series.mean()\<close>; \<open>None\<close> is the NaN that pandas returns when
  there is no value.  \<open>mean\<close> skips the NaN cells.\<close>

definition median :: "rat list \<Rightarrow> rat option" where
  "median xs =
     (let s = sort xs; n = length s
      in if n = 0 then None
         else if odd n then Some (s ! (n div 2))
         else Some ((s ! (n div 2 - 1) + s ! (n div 2)) / 2))"

definition mean :: "rat option list \<Rightarrow> rat option" where
  "mean xs =
     (let vs = List.map_filter (\<lambda>x. x) xs
      in if vs = [] then None else Some (sum_list vs / of_nat (length vs)))"

text \<open>\<open>f"{val:.1f}"\<close>: one fractional digit.\<close>

definition fmt_1f :: "rat \<Rightarrow> pystr" where
  "fmt_1f v =
     (let n = nat (round_half_even (\<bar>v\<bar> * 10))
      in (if v < 0 then [45] else []) @ decimal (n div 10) @ [46] @ decimal (n mod 10))"

text \<open>What the two format strings of \<open>format_price_display\<close> give for NaN.\<close>

definition format_price_nan :: "pystr \<Rightarrow> pystr" where
  "format_price_nan unit = (if unit = man then ascii ''nan'' @ man else won_sign @ ascii ''nan'')"

datatype 'a view = Shown 'a | Info pystr

text \<open>
  \<^verbatim>\<open>
  with kpi1:
      st.metric(LABEL, f"{len(f_df)} SUFFIX")
  with kpi2:
      if not f_df.empty and 'monthly_rent_disp' in f_df.columns:
          val = f_df['monthly_rent_disp'].median()
          st.metric(LABEL, format_price_display(val, target_unit))
      else:
          st.metric(LABEL, "-")
  with kpi3:   (the same on 'deposit_disp')
  with kpi4:
      if not f_df.empty and 'size' in f_df.columns:
          val = f_df['size'].mean()
          st.metric(LABEL, f"{val:.1f} SUFFIX")
      else:
          st.metric(LABEL, "-")
  \<close>
\<close>

definition kpi_count :: "dataframe \<Rightarrow> pystr" where
  "kpi_count f = decimal (length (rows f)) @ count_suffix"

definition kpi_median :: "pystr \<Rightarrow> price_field \<Rightarrow> dataframe \<Rightarrow> pystr" where
  "kpi_median target_unit fld f =
     (if \<not> empty f \<and> disp_col fld \<in> columns f
      then (case median (map (disp_val fld) (rows f)) of
              Some val \<Rightarrow> format_price_display val target_unit
            | None \<Rightarrow> format_price_nan target_unit)
      else ascii ''-'')"

definition kpi_area :: "dataframe \<Rightarrow> pystr" where
  "kpi_area f =
     (if \<not> empty f \<and> C_size \<in> columns f
      then (case mean (map size_val (rows f)) of
              Some val \<Rightarrow> fmt_1f val @ area_suffix
            | None \<Rightarrow> ascii ''nan'' @ area_suffix)
      else ascii ''-'')"

text \<open>The two plots read their columns from \<open>f_df\<close>; plotly raises \<open>ValueError\<close> for a
  column name that the table does not have, and for a marker size (the column \<open>size\<close> of
  the scatter plot) that is missing or negative.\<close>

definition size_ok :: "listing \<Rightarrow> bool" where
  "size_ok r = (case size_val r of None \<Rightarrow> False | Some v \<Rightarrow> 0 \<le> v)"

definition chart_cols :: "column set" where
  "chart_cols = {C_deposit_disp, C_monthly_rent_disp, C_size, C_business_middle_code_name,
     C_title, C_premium_disp}"

definition charts_view :: "dataframe \<Rightarrow> error + unit view" where
  "charts_view f =
     (if \<not> empty f
      then (if chart_cols \<subseteq> columns f \<and> list_all size_ok (rows f) then Inr (Shown ())
            else Inl ValueError)
      else Inr (Info no_chart_text))"

text \<open>\<open>f_df.groupby('regDate').size()\<close>: the dates in ascending order, each with its number
  of rows; rows without a date belong to no group.\<close>

definition group_by_date :: "dataframe \<Rightarrow> (int \<times> nat) list" where
  "group_by_date f =
     (let ds = List.map_filter regDate (rows f)
      in map (\<lambda>d. (d, length (filter (\<lambda>x. x = d) ds))) (sort (remdups ds)))"

definition trend_view :: "dataframe \<Rightarrow> (int \<times> nat) list view" where
  "trend_view f =
     (if C_regDate \<in> columns f \<and> \<not> empty f then Shown (group_by_date f)
      else Info no_trend_text)"

text \<open>The price cells of the result table: for each entry of \<open>price_map\<close> whose display
  column exists, the formatted value under its Korean name.  The other columns of the
  table are copied as they are.\<close>

definition price_map :: "(price_field \<times> pystr) list" where
  "price_map = [(F_deposit, name_deposit), (F_monthly_rent, name_rent),
     (F_premium, name_premium), (F_maintenance_fee, name_maintenance)]"

definition table_row :: "pystr \<Rightarrow> column set \<Rightarrow> listing \<Rightarrow> (pystr \<times> pystr) list" where
  "table_row target_unit cols r =
     map (\<lambda>(fld, kor). (kor, format_price_display (disp_val fld r) target_unit))
       (filter (\<lambda>(fld, kor). disp_col fld \<in> cols) price_map)"

definition table_df :: "pystr \<Rightarrow> dataframe \<Rightarrow> (pystr \<times> pystr) list list" where
  "table_df target_unit f = map (table_row target_unit (columns f)) (rows f)"

section \<open>The detail panel\<close>

text \<open>
  \<^verbatim>\<open>
  if MARKER in item['title']:
      st.write(base_comment if base_comment else PREPARING)
  else:
      st.write(UNAVAILABLE)
  \<close>
\<close>

definition resolve_comment :: "pystr \<Rightarrow> pystr \<Rightarrow> pystr" where
  "resolve_comment item_title base_comment =
     (if py_in marker item_title
      then (if base_comment \<noteq> [] then base_comment else preparing_text)
      else unavailable_text)"

text \<open>\<open>item.get('deposit_disp', 0)\<close> and its siblings.\<close>

definition item_get :: "column set \<Rightarrow> price_field \<Rightarrow> listing \<Rightarrow> rat" where
  "item_get cols fld item = (if disp_col fld \<in> cols then disp_val fld item else 0)"

text \<open>\<open>Series.unique()\<close>: the distinct values in the order of their first occurrence.\<close>

definition unique :: "'a list \<Rightarrow> 'a list" where
  "unique xs = rev (remdups (rev xs))"

text \<open>
  \<^verbatim>\<open>
  photos = item.get('small_photo_urls', [])
  if not photos and 'preview_photo_url' in item: photos = [item['preview_photo_url']]
  if not photos: photos = []
  for idx, url in enumerate(photos[:6]):
      with cols[idx % 3]:
          st.image(url, use_column_width=True)
  \<close>
  \<open>st.image\<close> is the library's: it is a parameter, the test "this source can be shown",
  and a source that cannot be shown raises.  A cell that is still a string is sliced and
  iterated as a string, one character at a time.
\<close>

type_synonym st_image = "json \<Rightarrow> bool"

definition cell_truthy :: "cell \<Rightarrow> bool" where
  "cell_truthy x = (case x of Null \<Rightarrow> False | Text s \<Rightarrow> s \<noteq> [] | Items xs \<Rightarrow> xs \<noteq> [])"

fun show_images :: "st_image \<Rightarrow> json list \<Rightarrow> error + json list" where
  "show_images img [] = Inr []"
| "show_images img (x # xs) =
     (if img x
      then (case show_images img xs of Inl e \<Rightarrow> Inl e | Inr ys \<Rightarrow> Inr (x # ys))
      else Inl ImageError)"

definition gallery :: "st_image \<Rightarrow> column set \<Rightarrow> listing \<Rightarrow> error + json list" where
  "gallery img cols item =
     (let photos = (if C_small_photo_urls \<in> cols then small_photo_urls item else Items []);
          photos = (if \<not> cell_truthy photos \<and> C_preview_photo_url \<in> cols
                    then Items [case preview_photo_url item of
                                  None \<Rightarrow> JNull | Some s \<Rightarrow> JStr s]
                    else photos);
          photos = (if \<not> cell_truthy photos then Items [] else photos)
      in case photos of
           Items xs \<Rightarrow> show_images img (take 6 xs)
         | Text s \<Rightarrow> show_images img (map (\<lambda>ch. JStr [ch]) (take 6 s))
         | Null \<Rightarrow> Inr [])"

record detail =
  detail_title :: pystr
  detail_photos :: "json list"
  detail_metrics :: "(pystr \<times> pystr) list"
  detail_comment :: pystr

text \<open>
  \<^verbatim>\<open>
  selected_title = st.selectbox(..., f_df['title'].unique())
  item = f_df[f_df['title'] == selected_title].iloc[0]
  st.metric(NAME, format_price_display(item.get('deposit_disp', 0), target_unit))  ...
  \<close>
\<close>

definition detail_of ::
  "st_image \<Rightarrow> pystr \<Rightarrow> pystr \<Rightarrow> widgets \<Rightarrow> dataframe \<Rightarrow> error + detail" where
  "detail_of img target_unit base_comment w f =
     (if C_title \<notin> columns f then Inl KeyError
      else (case selectbox (unique (map title (rows f))) (detail_select w) of
              None \<Rightarrow> Inl IndexError
            | Some selected_title \<Rightarrow>
                (case filter (\<lambda>r. title r = selected_title) (rows f) of
                   [] \<Rightarrow> Inl IndexError
                 | item # _ \<Rightarrow>
                     (case gallery img (columns f) item of
                        Inl e \<Rightarrow> Inl e
                      | Inr shown \<Rightarrow>
                          Inr \<lparr>detail_title = title item,
                               detail_photos = shown,
                               detail_metrics =
                                 map (\<lambda>(fld, kor).
                                        (kor, format_price_display
                                                (item_get (columns f) fld item) target_unit))
                                   price_map,
                               detail_comment = resolve_comment (title item) base_comment\<rparr>))))"

definition results_view ::
  "st_image \<Rightarrow> pystr \<Rightarrow> pystr \<Rightarrow> widgets \<Rightarrow> dataframe
     \<Rightarrow> error + ((pystr \<times> pystr) list list \<times> detail) view" where
  "results_view img target_unit base_comment w f =
     (if \<not> empty f
      then (case detail_of img target_unit base_comment w f of
              Inl e \<Rightarrow> Inl e
            | Inr d \<Rightarrow> Inr (Shown (table_df target_unit f, d)))
      else Inr (Info no_result_text))"

section \<open>One render cycle\<close>

record dashboard =
  kpi1 :: "pystr \<times> pystr"
  kpi2 :: "pystr \<times> pystr"
  kpi3 :: "pystr \<times> pystr"
  kpi4 :: "pystr \<times> pystr"
  charts :: "unit view"
  trend :: "(int \<times> nat) list view"
  results :: "((pystr \<times> pystr) list list \<times> detail) view"

definition render ::
  "st_image \<Rightarrow> pystr \<Rightarrow> pystr \<Rightarrow> pystr \<Rightarrow> widgets \<Rightarrow> dataframe \<Rightarrow> error + dashboard" where
  "render img unit_choice target_unit base_comment w f =
     (case charts_view f of
        Inl e \<Rightarrow> Inl e
      | Inr ch \<Rightarrow>
          (case results_view img target_unit base_comment w f of
             Inl e \<Rightarrow> Inl e
           | Inr res \<Rightarrow>
               Inr \<lparr>kpi1 = (label_count, kpi_count f),
                    kpi2 = (label_rent @ unit_choice @ ascii '')'',
                            kpi_median target_unit F_monthly_rent f),
                    kpi3 = (label_deposit @ target_unit @ unit_suffix @ ascii '')'',
                            kpi_median target_unit F_deposit f),
                    kpi4 = (label_area, kpi_area f),
                    charts = ch,
                    trend = trend_view f,
                    results = res\<rparr>))"

text \<open>The script from the loaded table on: it stops with a warning when the table is
  empty, otherwise it derives the display columns, filters and renders.\<close>

datatype page = Stopped pystr | Rendered dashboard

definition app ::
  "re_compile \<Rightarrow> st_image \<Rightarrow> widgets \<Rightarrow> pystr \<Rightarrow> dataframe \<Rightarrow> error + page" where
  "app rc img w base_comment raw_df =
     (if empty raw_df then Inr (Stopped no_data_warning)
      else (let unit_choice = unit_choice_of w;
                target_unit = target_unit_of unit_choice
            in case preprocess target_unit raw_df of
                 Inl e \<Rightarrow> Inl e
               | Inr df \<Rightarrow>
                   (case f_df rc (sidebar w df) df of
                      Inl e \<Rightarrow> Inl e
                    | Inr f \<Rightarrow>
                        (case render img unit_choice target_unit base_comment w f of
                           Inl e \<Rightarrow> Inl e
                         | Inr d \<Rightarrow> Inr (Rendered d)))))"

section \<open>The filter as a conjunction of row tests\<close>

text \<open>
  The filter in the words of its specification: each criterion is a test of one row,
  an absent criterion lets every row pass, and a row is kept when it passes all four.
  \<open>station_matches\<close> is the match that \<open>str.contains\<close> computes for the search text.
\<close>

definition station_matches :: "re_compile \<Rightarrow> pystr \<Rightarrow> pystr option \<Rightarrow> bool" where
  "station_matches rc pat x =
     (case rc pat of None \<Rightarrow> False | Some found \<Rightarrow> str_contains found x)"

fun step_pred :: "re_compile \<Rightarrow> criteria \<Rightarrow> column set \<Rightarrow> step \<Rightarrow> listing \<Rightarrow> bool" where
  "step_pred rc c cols ByIndustry r =
     (sel_ind c = all_label \<or> business_middle_code_name r = sel_ind c)"
| "step_pred rc c cols ByStation r =
     (search_station c = [] \<or> C_near_subway_station \<notin> cols
      \<or> station_matches rc (search_station c) (near_subway_station r))"
| "step_pred rc c cols ByPremium r =
     (\<not> hide_premium_closed c \<or> C_is_premium_closed \<notin> cols
      \<or> is_premium_closed r = Some False)"
| "step_pred rc c cols ByRent r =
     (C_monthly_rent_disp \<notin> cols \<or> in_range (rent_range c) (monthly_rent_disp r))"

definition passes :: "re_compile \<Rightarrow> criteria \<Rightarrow> column set \<Rightarrow> listing \<Rightarrow> bool" where
  "passes rc c cols r =
     (step_pred rc c cols ByIndustry r \<and> step_pred rc c cols ByStation r
      \<and> step_pred rc c cols ByPremium r \<and> step_pred rc c cols ByRent r)"

text \<open>The station filter is active and \<open>re.compile\<close> rejects the search text.\<close>

definition pattern_invalid :: "re_compile \<Rightarrow> criteria \<Rightarrow> column set \<Rightarrow> bool" where
  "pattern_invalid rc c cols =
     (search_station c \<noteq> [] \<and> C_near_subway_station \<in> cols \<and> rc (search_station c) = None)"

section \<open>Relating the loaded table to the stored one\<close>

text \<open>Row \<open>r'\<close> is row \<open>r\<close> with the cells of the photo columns that exist decoded, and
  nothing else changed.\<close>

definition decoded_into ::
  "json_loads \<Rightarrow> column set \<Rightarrow> listing \<Rightarrow> listing \<Rightarrow> bool" where
  "decoded_into loads cols r r' =
     ((if C_small_photo_urls \<in> cols
       then decode_cell loads (small_photo_urls r) = Inr (small_photo_urls r')
       else small_photo_urls r' = small_photo_urls r)
      \<and> (if C_origin_photo_urls \<in> cols
          then decode_cell loads (origin_photo_urls r) = Inr (origin_photo_urls r')
          else origin_photo_urls r' = origin_photo_urls r)
      \<and> r' = r\<lparr>small_photo_urls := small_photo_urls r',
                origin_photo_urls := origin_photo_urls r'\<rparr>)"

section \<open>Relating the display columns to the stored prices\<close>

text \<open>Row \<open>r'\<close> carries the stored prices of \<open>r\<close> and, for each price field of \<open>fs\<close> whose
  column exists, as its display value what \<open>convert_price\<close> returns for the stored value
  and the unit \<open>u\<close>; its other display values are those of \<open>r\<close>.\<close>

definition converted ::
  "pystr \<Rightarrow> price_field set \<Rightarrow> column set \<Rightarrow> listing \<Rightarrow> listing \<Rightarrow> bool" where
  "converted u fs cols r r' =
     (\<forall>f. raw_val f r' = raw_val f r
          \<and> (if f \<in> fs \<and> raw_col f \<in> cols
              then convert_price (raw_val f r) u = Inr (disp_val f r')
              else disp_val f r' = disp_val f r))"

section \<open>Stand-ins for the library functions\<close>

text \<open>
  For evaluating the definitions on examples.  \<open>loads_two\<close> stands for \<open>json.loads\<close> on
  two texts, the empty array and the array of one address, and rejects every other
  text.  \<open>image_one\<close> stands for \<open>st.image\<close>: it can show that one address and nothing
  else.
\<close>

definition photo_url :: pystr where
  "photo_url = ascii ''https://img.example/1.jpg''"

definition photo_json :: pystr where
  "photo_json = [91, 34] @ photo_url @ [34, 93]"

definition loads_two :: json_loads where
  "loads_two s =
     (if s = ascii ''[]'' then Some []
      else if s = photo_json then Some [JStr photo_url]
      else None)"

definition image_one :: st_image where
  "image_one x = (x = JStr photo_url)"

text \<open>
  \<open>re_dots\<close> stands for \<open>re.compile\<close> on the patterns built from ordinary characters and
  dots, where a dot matches any character but the newline and every other character
  matches itself.  On a pattern with another special character it answers \<open>None\<close>; the
  examples use no such pattern.
\<close>

definition other_special :: "nat list" where
  "other_special = [94, 36, 42, 43, 63, 123, 125, 91, 93, 92, 124, 40, 41]"

datatype atom = Lit nat | AnyChar

fun atom_ok :: "atom \<Rightarrow> nat \<Rightarrow> bool" where
  "atom_ok (Lit c) x = (x = c)"
| "atom_ok AnyChar x = (x \<noteq> 10)"

fun match_here :: "atom list \<Rightarrow> pystr \<Rightarrow> bool" where
  "match_here [] s = True"
| "match_here (a # p) [] = False"
| "match_here (a # p) (x # s) = (atom_ok a x \<and> match_here p s)"

fun re_search :: "atom list \<Rightarrow> pystr \<Rightarrow> bool" where
  "re_search p [] = match_here p []"
| "re_search p (x # s) = (match_here p (x # s) \<or> re_search p s)"

definition re_dots :: re_compile where
  "re_dots pat =
     (if list_ex (\<lambda>c. c \<in> set other_special) pat then None
      else Some (re_search (map (\<lambda>c. if c = 46 then AnyChar else Lit c) pat)))"

section \<open>Example data\<close>

text \<open>Two listings as \<open>load_db_data\<close> returns them and the table of the two; the same
  two as they are stored; the table with its display columns, for each unit.\<close>

definition listing_a :: listing where
  "listing_a =
     \<lparr>title = ascii ''Cafe A'', business_middle_code_name = ascii ''cafe'',
      near_subway_station = Some (ascii ''Ichon, 5 min''), is_premium_closed = Some False,
      size_val = Some 33, deposit = PyInt 50000, monthly_rent = PyInt 3000, premium = PyNone,
      maintenance_fee = NaN, sale = PyInt 0, created_date_utc = Some (19000, 3600),
      small_photo_urls = Items [JStr photo_url], origin_photo_urls = Items [],
      preview_photo_url = None,
      deposit_disp = 0, monthly_rent_disp = 0, premium_disp = 0, maintenance_fee_disp = 0,
      sale_disp = 0, regDate = None\<rparr>"

definition listing_b :: listing where
  "listing_b =
     listing_a\<lparr>title := marker @ ascii '' B'', business_middle_code_name := ascii ''bar'',
       near_subway_station := None, is_premium_closed := None,
       small_photo_urls := Items []\<rparr>"

definition raw_columns :: "column set" where
  "raw_columns = {C_title, C_business_middle_code_name, C_near_subway_station,
     C_is_premium_closed, C_size, C_deposit, C_monthly_rent, C_premium, C_maintenance_fee,
     C_sale, C_created_date_utc, C_small_photo_urls, C_origin_photo_urls}"

definition frame_ab :: dataframe where
  "frame_ab = \<lparr>columns = raw_columns, rows = [listing_a, listing_b]\<rparr>"

definition stored_ab :: dataframe where
  "stored_ab =
     \<lparr>columns = raw_columns,
      rows = [listing_a\<lparr>small_photo_urls := Text photo_json, origin_photo_urls := Null\<rparr>,
              listing_b\<lparr>small_photo_urls := Text [], origin_photo_urls := Null\<rparr>]\<rparr>"

definition disp_columns :: "column set" where
  "disp_columns = raw_columns \<union> {C_deposit_disp, C_monthly_rent_disp, C_premium_disp,
     C_maintenance_fee_disp, C_sale_disp, C_regDate}"

definition frame_ab_man :: dataframe where
  "frame_ab_man =
     \<lparr>columns = disp_columns,
      rows = [listing_a\<lparr>deposit_disp := 5000, monthly_rent_disp := 300, regDate := Some 19000\<rparr>,
              listing_b\<lparr>deposit_disp := 5000, monthly_rent_disp := 300, regDate := Some 19000\<rparr>]\<rparr>"

definition frame_ab_won :: dataframe where
  "frame_ab_won =
     \<lparr>columns = disp_columns,
      rows = [listing_a\<lparr>deposit_disp := 50000000, monthly_rent_disp := 3000000,
                regDate := Some 19000\<rparr>,
              listing_b\<lparr>deposit_disp := 50000000, monthly_rent_disp := 3000000,
                regDate := Some 19000\<rparr>]\<rparr>"

definition no_criteria :: criteria where
  "no_criteria = \<lparr>sel_ind = all_label, search_station = [], hide_premium_closed = False,
     rent_range = Some (0, 0)\<rparr>"

definition criteria_cafe :: criteria where
  "criteria_cafe = \<lparr>sel_ind = ascii ''cafe'', search_station = ascii ''Ichon'',
     hide_premium_closed = True, rent_range = Some (0, 1000)\<rparr>"

definition widgets_default :: widgets where
  "widgets_default =
     \<lparr>unit_radio = manwon, industry_select = all_label, station_text = [],
      hide_checkbox = False, rent_slider = (0, 1000), detail_select = []\<rparr>"

definition widgets_won :: widgets where
  "widgets_won = widgets_default\<lparr>unit_radio := won\<rparr>"

definition price_cells_won :: "(pystr \<times> pystr) list" where
  "price_cells_won =
     [(name_deposit, won_sign @ ascii ''50,000,000''),
      (name_rent, won_sign @ ascii ''3,000,000''),
      (name_premium, ascii ''-''), (name_maintenance, ascii ''-'')]"

definition dashboard_won :: dashboard where
  "dashboard_won =
     \<lparr>kpi1 = (label_count, ascii ''2'' @ count_suffix),
      kpi2 = (label_rent @ won @ ascii '')'', won_sign @ ascii ''3,000,000''),
      kpi3 = (label_deposit @ won @ unit_suffix @ ascii '')'', won_sign @ ascii ''50,000,000''),
      kpi4 = (label_area, ascii ''33.0'' @ area_suffix),
      charts = Shown (),
      trend = Shown [(19000, 2)],
      results = Shown ([price_cells_won, price_cells_won],
        \<lparr>detail_title = ascii ''Cafe A'', detail_photos = [JStr photo_url],
         detail_metrics = price_cells_won, detail_comment = unavailable_text\<rparr>)\<rparr>"

section \<open>Evaluation lemmas\<close>

lemma floor_rat_numeral:
  "\<lfloor>(numeral a / numeral b :: rat)\<rfloor> = numeral a div numeral b"
  using floor_divide_of_int_eq [of "numeral a" "numeral b", where ?'a = rat] by simp

lemma decimal_lt10: "n < 10 \<Longrightarrow> decimal n = [48 + n]"
  by (simp add: decimal.simps)

lemma decimal_ge10: "10 \<le> n \<Longrightarrow> decimal n = decimal (n div 10) @ [48 + n mod 10]"
  by (subst decimal.simps) simp

lemmas fmt_defs = format_price_display_def man_def won_def eok_def won_sign_def py_int_def
  py_floordiv_def py_mod_def fmt_int_def fmt_int_comma_def grouped_def decimal_lt10
  decimal_ge10 ascii_def fmt_comma_0f_def round_half_even_def Let_def floor_rat_numeral


section \<open>Properties of the float arithmetic\<close>

lemma ilog2_lt1: "0 < q \<Longrightarrow> q < 1 \<Longrightarrow> ilog2 q = ilog2 (2 * q) - 1"
  by (subst ilog2.simps) simp

lemma ilog2_ge2: "2 \<le> q \<Longrightarrow> ilog2 q = ilog2 (q / 2) + 1"
  by (subst ilog2.simps) simp

lemma ilog2_unit: "1 \<le> q \<Longrightarrow> q < 2 \<Longrightarrow> ilog2 q = 0"
  by (subst ilog2.simps) simp

lemmas fl_eval = fl_def pow2_def ilog2_lt1 ilog2_ge2 ilog2_unit round_half_even_def Let_def
  floor_rat_numeral

lemma pow2_pos: "0 < pow2 e"
  by (simp add: pow2_def)

lemma pow2_Suc: "pow2 (e + 1) = 2 * pow2 e"
proof (cases "0 \<le> e")
  case True
  then have "nat (e + 1) = Suc (nat e)" by simp
  with True show ?thesis by (simp add: pow2_def)
next
  case False
  then have "nat (- e) = Suc (nat (- (e + 1)))" by simp
  with False show ?thesis by (simp add: pow2_def)
qed

lemma pow2_pred: "pow2 (e - 1) = pow2 e / 2"
  using pow2_Suc [of "e - 1"] by simp

lemma ilog2_bounds: "0 < q \<Longrightarrow> pow2 (ilog2 q) \<le> q \<and> q < pow2 (ilog2 q + 1)"
proof (induction q rule: ilog2.induct)
  case (1 q)
  consider "q < 1" | "2 \<le> q" | "1 \<le> q" "q < 2" by linarith
  then show ?case
  proof cases
    case 1
    with "1.prems" have e: "ilog2 q = ilog2 (2 * q) - 1" by (simp add: ilog2_lt1)
    from "1.IH"(1) [OF 1 "1.prems"] "1.prems"
    have "pow2 (ilog2 (2 * q)) \<le> 2 * q \<and> 2 * q < pow2 (ilog2 (2 * q) + 1)" by simp
    then show ?thesis unfolding e by (simp add: pow2_pred pow2_Suc)
  next
    case 2
    then have e: "ilog2 q = ilog2 (q / 2) + 1" by (simp add: ilog2_ge2)
    from 2 have "\<not> q < 1" by simp
    from "1.IH"(2) [OF this 2] 2
    have h: "pow2 (ilog2 (q / 2)) \<le> q / 2 \<and> q / 2 < pow2 (ilog2 (q / 2) + 1)" by simp
    have "pow2 (ilog2 (q / 2) + 1) = 2 * pow2 (ilog2 (q / 2))"
      "pow2 (ilog2 (q / 2) + 1 + 1) = 2 * pow2 (ilog2 (q / 2) + 1)"
      by (rule pow2_Suc)+
    with h show ?thesis unfolding e by linarith
  next
    case 3
    then have "ilog2 q = 0" by (simp add: ilog2_unit)
    with 3 show ?thesis by (simp add: pow2_def)
  qed
qed

lemma round_half_even_of_int: "round_half_even (of_int j) = j"
  by (simp add: round_half_even_def)

lemma pow2_mono: "a \<le> b \<Longrightarrow> pow2 a \<le> pow2 b"
proof (induction "nat (b - a)" arbitrary: b)
  case 0
  then show ?case by simp
next
  case (Suc n)
  then have "n = nat ((b - 1) - a)" "a \<le> b - 1" by simp_all
  then have "pow2 a \<le> pow2 (b - 1)" by (rule Suc.hyps(1))
  also have "\<dots> \<le> pow2 b" using pow2_pos [of b] by (simp add: pow2_pred)
  finally show ?case .
qed

lemma fl_of_int:
  assumes "\<bar>k\<bar> \<le> 2 ^ 53"
  shows "fl (of_int k) = of_int k"
proof (cases "k = 0")
  case True
  then show ?thesis by (simp add: fl_def)
next
  case False
  let ?q = "of_int k :: rat"
  let ?e = "ilog2 \<bar>?q\<bar>"
  from False have pos: "0 < \<bar>?q\<bar>" and one: "1 \<le> \<bar>?q\<bar>" by simp_all
  note b = ilog2_bounds [OF pos]
  have e0: "0 \<le> ?e"
  proof (rule ccontr)
    assume "\<not> 0 \<le> ?e"
    then have "?e + 1 \<le> 0" by simp
    then have "pow2 (?e + 1) \<le> pow2 0" by (rule pow2_mono)
    with b one show False by (simp add: pow2_def)
  qed
  have le: "\<bar>?q\<bar> \<le> 2 ^ 53"
  proof -
    from assms have "of_int \<bar>k\<bar> \<le> (of_int (2 ^ 53) :: rat)" by (simp only: of_int_le_iff)
    then show ?thesis by simp
  qed
  have e53: "?e \<le> 53"
  proof (rule ccontr)
    assume "\<not> ?e \<le> 53"
    then have "54 \<le> ?e" by simp
    then have "pow2 54 \<le> pow2 ?e" by (rule pow2_mono)
    with b le show False by (simp add: pow2_def)
  qed
  have m: "max ?e (- 1022) = ?e" using e0 by simp
  have "\<exists>j. ?q / pow2 (?e - 52) = of_int j"
  proof (cases "?e \<le> 52")
    case True
    then have "pow2 (?e - 52) = 1 / 2 ^ nat (52 - ?e)"
      by (cases "?e = 52") (simp_all add: pow2_def)
    then have "?q / pow2 (?e - 52) = of_int (k * 2 ^ nat (52 - ?e))" by simp
    then show ?thesis by blast
  next
    case False
    with e53 have e: "?e = 53" by simp
    with b have "2 ^ 53 \<le> \<bar>?q\<bar>" by (simp add: pow2_def)
    with le have "\<bar>?q\<bar> = 2 ^ 53" by simp
    then have "\<bar>k\<bar> = 2 ^ 53"
      by (metis of_int_abs of_int_eq_iff of_int_numeral of_int_power)
    then have "k = 2 ^ 53 \<or> k = - (2 ^ 53)" by linarith
    then have "?q / pow2 (?e - 52) = of_int (k div 2)"
      unfolding e by (auto simp: pow2_def)
    then show ?thesis by blast
  qed
  then obtain j where j: "?q / pow2 (?e - 52) = of_int j" by blast
  have "fl ?q = of_int (round_half_even (?q / pow2 (?e - 52))) * pow2 (?e - 52)"
    using False by (simp add: fl_def m Let_def)
  also have "\<dots> = ?q / pow2 (?e - 52) * pow2 (?e - 52)"
    by (simp only: j round_half_even_of_int)
  also have "\<dots> = ?q" using pow2_pos [of "?e - 52"] by simp
  finally show ?thesis .
qed

text \<open>A quotient of an int by ten that is whole and of at most 53 bits is computed
  exactly.\<close>

lemma tenth_exact:
  assumes "10 dvd n" and "\<bar>n\<bar> \<le> 10 * 2 ^ 53"
  shows "fl (of_int n / 10) = of_int n / 10" and "\<not> overflows (of_int n / 10)"
proof -
  from assms(1) obtain k where k: "n = 10 * k" by (auto simp: dvd_def)
  with assms(2) have b: "\<bar>k\<bar> \<le> 2 ^ 53" by simp
  have q: "(of_int n :: rat) / 10 = of_int k" using k by simp
  have f: "fl (of_int k) = of_int k" using b by (rule fl_of_int)
  show "fl (of_int n / 10) = of_int n / 10"
    unfolding q by (rule f)
  have "\<bar>of_int k :: rat\<bar> \<le> 2 ^ 53"
  proof -
    from b have "of_int \<bar>k\<bar> \<le> (of_int (2 ^ 53) :: rat)" by (simp only: of_int_le_iff)
    then show ?thesis by simp
  qed
  also have "\<dots> < (2 ^ 1024 :: rat)" by simp
  finally have "\<not> 2 ^ 1024 \<le> \<bar>of_int k :: rat\<bar>" by simp
  then show "\<not> overflows (of_int n / 10)"
    unfolding overflows_def q f .
qed

text \<open>The thousandfold of a whole float is computed exactly while it has at most 53
  bits.\<close>

lemma thousand_exact:
  assumes "\<bar>k\<bar> * 1000 \<le> 2 ^ 53"
  shows "fl (of_int k * 1000) = of_int (k * 1000)" and "\<not> overflows (of_int k * 1000)"
proof -
  have e: "(of_int k :: rat) * 1000 = of_int (k * 1000)" by simp
  have b: "\<bar>k * 1000\<bar> \<le> 2 ^ 53" using assms by (simp add: abs_mult)
  have f: "fl (of_int (k * 1000)) = of_int (k * 1000)" using b by (rule fl_of_int)
  show "fl (of_int k * 1000) = of_int (k * 1000)"
    unfolding e by (rule f)
  have "\<bar>of_int (k * 1000) :: rat\<bar> \<le> 2 ^ 53"
  proof -
    from b have "of_int \<bar>k * 1000\<bar> \<le> (of_int (2 ^ 53) :: rat)" by (simp only: of_int_le_iff)
    then show ?thesis by simp
  qed
  also have "\<dots> < (2 ^ 1024 :: rat)" by simp
  finally have "\<not> 2 ^ 1024 \<le> \<bar>of_int (k * 1000) :: rat\<bar>" by simp
  then show "\<not> overflows (of_int k * 1000)"
    unfolding overflows_def e f .
qed

section \<open>Properties of the price conversion\<close>

lemma convert_float_029:
  "fl (29 / 100) = 5224175567749775 / 2 ^ 54"
  "convert_price (PyFloat (5224175567749775 / 2 ^ 54)) won = Inr 290"
  by (simp_all add: convert_price_def overflows_def py_int_def fl_eval)

lemma convert_int_7: "convert_price (PyInt 7) man = Inr (6305039478318694 / 2 ^ 53)"
  by (simp add: convert_price_def overflows_def man_def won_def fl_eval)

text \<open>
  C1 (as stated): for every stored price \<open>v \<ge> 0\<close> the conversion to the major unit is
  \<open>v * 1000\<close> exactly and the conversion to the minor unit is \<open>v / 10\<close> exactly, with no
  rounding.  The code truncates the product with \<open>int\<close>: the stored float \<open>1/1024\<close>,
  whose thousandfold \<open>125/128\<close> is a float, converts to \<open>0\<close>.  And the quotient is a
  float: the stored int \<open>7\<close> converts to the double next to \<open>7/10\<close>, not to \<open>7/10\<close>.
\<close>

theorem convert_price_major_counterexample:
  "(0::rat) \<le> 1 / 1024 \<and> fl (1 / 1024 * 1000) = 1 / 1024 * 1000
   \<and> convert_price (PyFloat (1 / 1024)) won = Inr 0
   \<and> convert_price (PyFloat (1 / 1024)) won \<noteq> Inr (1 / 1024 * 1000)
   \<and> convert_price (PyInt 7) man \<noteq> Inr (7 / 10)"
proof -
  have a: "fl (1 / 1024 * 1000) = 1 / 1024 * 1000"
    by (simp add: fl_eval)
  have b: "convert_price (PyFloat (1 / 1024)) won = Inr 0"
    by (simp add: convert_price_def overflows_def py_int_def fl_eval)
  have c: "convert_price (PyInt 7) man \<noteq> Inr (7 / 10)"
    by (simp add: convert_int_7)
  from a b c show ?thesis by simp
qed

text \<open>
  C1 (amended): a missing input (\<open>None\<close> or NaN) converts to \<open>0\<close> in either unit.  In the
  major unit a stored int \<open>n\<close> converts to \<open>n * 1000\<close> exactly, and a stored float \<open>x\<close> to
  the float product \<open>x * 1000\<close> truncated toward zero to an integer (the conversion
  raises \<open>OverflowError\<close> when the product overflows).  In the minor unit the result is
  the float quotient, the double nearest to the tenth of the stored value.  Where the
  exact result is a whole number of at most 53 bits the conversion returns it: the
  tenth of a stored int that is a multiple of ten, and the thousandfold of a stored
  float that is whole.
\<close>

theorem convert_price_spec:
  "convert_price PyNone u = Inr 0
   \<and> convert_price NaN u = Inr 0
   \<and> convert_price (PyInt n) won = Inr (of_int n * 1000)
   \<and> convert_price (PyFloat x) won =
       (if overflows (x * 1000) then Inl OverflowError
        else Inr (of_int (py_int (fl (x * 1000)))))
   \<and> convert_price (PyInt n) man =
       (if overflows (of_int n / 10) then Inl OverflowError else Inr (fl (of_int n / 10)))
   \<and> convert_price (PyFloat x) man = Inr (fl (x / 10))
   \<and> (10 dvd m \<and> \<bar>m\<bar> \<le> 10 * 2 ^ 53 \<longrightarrow>
         convert_price (PyInt m) man = Inr (of_int m / 10))
   \<and> (\<bar>k\<bar> * 1000 \<le> 2 ^ 53 \<longrightarrow>
         convert_price (PyFloat (of_int k)) won = Inr (of_int k * 1000))"
proof -
  have a: "10 dvd m \<and> \<bar>m\<bar> \<le> 10 * 2 ^ 53 \<longrightarrow>
      convert_price (PyInt m) man = Inr (of_int m / 10)"
    using tenth_exact [of m] by (simp add: convert_price_def man_def won_def)
  have b: "\<bar>k\<bar> * 1000 \<le> 2 ^ 53 \<longrightarrow>
      convert_price (PyFloat (of_int k)) won = Inr (of_int k * 1000)"
    using thousand_exact [of k] by (simp add: convert_price_def py_int_def)
  have c: "convert_price PyNone u = Inr 0" "convert_price NaN u = Inr 0"
    "convert_price (PyInt n) won = Inr (of_int n * 1000)"
    "convert_price (PyFloat x) won =
       (if overflows (x * 1000) then Inl OverflowError
        else Inr (of_int (py_int (fl (x * 1000)))))"
    "convert_price (PyInt n) man =
       (if overflows (of_int n / 10) then Inl OverflowError else Inr (fl (of_int n / 10)))"
    "convert_price (PyFloat x) man = Inr (fl (x / 10))"
    by (simp_all add: convert_price_def man_def won_def)
  from a b c show ?thesis by blast
qed

theorem convert_price_spec_witness:
  "(10::int) dvd 3000 \<and> \<bar>3000::int\<bar> \<le> 10 * 2 ^ 53
   \<and> \<bar>3000::int\<bar> * 1000 \<le> 2 ^ 53
   \<and> convert_price (PyInt 3000) man = Inr 300
   \<and> convert_price (PyInt 3000) won = Inr 3000000
   \<and> convert_price (PyFloat 3000) won = Inr 3000000"
proof -
  have a: "(10::int) dvd 3000" "\<bar>3000::int\<bar> \<le> 10 * 2 ^ 53"
    "\<bar>3000::int\<bar> * 1000 \<le> 2 ^ 53"
    by simp_all
  note t = convert_price_spec [of u 3000 x 3000 3000 for u x]
  from t a have "convert_price (PyInt 3000) man = Inr (of_int 3000 / 10)" by blast
  then have b: "convert_price (PyInt 3000) man = Inr 300" by simp
  from t have "convert_price (PyInt 3000) won = Inr (of_int 3000 * 1000)" by blast
  then have c: "convert_price (PyInt 3000) won = Inr 3000000" by simp
  from t a have "convert_price (PyFloat (of_int 3000)) won = Inr (of_int 3000 * 1000)" by blast
  then have d: "convert_price (PyFloat 3000) won = Inr 3000000" by simp
  from a b c d show ?thesis by blast
qed

section \<open>Properties of the price formatter\<close>

lemma fmt_zero_any: "format_price_display 0 u = ascii ''-''"
  by (simp add: format_price_display_def)

lemma fmt_10000_man: "format_price_display 10000 man = ascii ''1'' @ eok"
  by (simp add: fmt_defs)

lemma fmt_12345_man:
  "format_price_display 12345 man = ascii ''1'' @ eok @ ascii '' 2,345'' @ man"
  by (simp add: fmt_defs)

lemma fmt_9999_man: "format_price_display 9999 man = ascii ''9,999'' @ man"
  by (simp add: fmt_defs)

lemma fmt_1230000_man: "format_price_display 1230000 man = ascii ''123'' @ eok"
  by (simp add: fmt_defs)

lemma fmt_1500_won: "format_price_display 1500 won = won_sign @ ascii ''1,500''"
  by (simp add: fmt_defs)

text \<open>
  C3: the formatter returns the fixed strings: \<open>"-"\<close> for \<open>0\<close> in both units; in the
  minor unit \<open>10000\<close> gives \<open>1\<close> followed by \<open>eok\<close>, \<open>12345\<close> gives \<open>1\<close>, \<open>eok\<close>, a
  space, \<open>2,345\<close> and \<open>man\<close>, \<open>9999\<close> gives \<open>9,999\<close> and \<open>man\<close>, and \<open>1230000\<close> gives
  \<open>123\<close> and \<open>eok\<close>; in the major unit \<open>1500\<close> gives the
  currency sign followed by \<open>"1,500"\<close>.
\<close>

theorem format_price_display_examples:
  "format_price_display 0 man = ascii ''-''
   \<and> format_price_display 0 won = ascii ''-''
   \<and> format_price_display 10000 man = ascii ''1'' @ eok
   \<and> format_price_display 12345 man = ascii ''1'' @ eok @ ascii '' 2,345'' @ man
   \<and> format_price_display 9999 man = ascii ''9,999'' @ man
   \<and> format_price_display 1230000 man = ascii ''123'' @ eok
   \<and> format_price_display 1500 won = won_sign @ ascii ''1,500''"
  using fmt_zero_any [of man] fmt_zero_any [of won] fmt_10000_man fmt_12345_man
    fmt_9999_man fmt_1230000_man fmt_1500_won
  by (simp only: simp_thms)

section \<open>Properties of the text search\<close>

lemma starts_with_iff: "starts_with s sub \<longleftrightarrow> (\<exists>suf. s = sub @ suf)"
  by (induction s sub rule: starts_with.induct) auto

text \<open>\<open>py_in\<close> is containment as a contiguous substring.\<close>

lemma py_in_iff: "py_in sub s \<longleftrightarrow> (\<exists>pre suf. s = pre @ sub @ suf)"
proof (induction s)
  case Nil
  then show ?case by auto
next
  case (Cons x s)
  show ?case
  proof
    assume "py_in sub (x # s)"
    then consider "starts_with (x # s) sub" | "py_in sub s" by auto
    then show "\<exists>pre suf. x # s = pre @ sub @ suf"
    proof cases
      case 1
      then obtain suf where "x # s = sub @ suf" by (auto simp: starts_with_iff)
      then have "x # s = [] @ sub @ suf" by simp
      then show ?thesis by blast
    next
      case 2
      then obtain pre suf where "s = pre @ sub @ suf" using Cons.IH by blast
      then have "x # s = (x # pre) @ sub @ suf" by simp
      then show ?thesis by blast
    qed
  next
    assume "\<exists>pre suf. x # s = pre @ sub @ suf"
    then obtain pre suf where e: "x # s = pre @ sub @ suf" by blast
    show "py_in sub (x # s)"
    proof (cases pre)
      case Nil
      with e have "starts_with (x # s) sub" by (auto simp: starts_with_iff)
      then show ?thesis by simp
    next
      case (Cons y pre')
      with e have "s = pre' @ sub @ suf" by simp
      then have "py_in sub s" using Cons.IH by blast
      then show ?thesis by simp
    qed
  qed
qed

text \<open>On a pattern without special characters the stand-in \<open>re_dots\<close> is substring
  containment, as \<open>re\<close> is.\<close>

lemma match_here_literal: "match_here (map Lit pat) s = starts_with s pat"
  by (induction s pat rule: starts_with.induct) auto

lemma re_search_literal: "re_search (map Lit pat) s = py_in pat s"
proof (induction s)
  case Nil
  show ?case by (cases pat) simp_all
next
  case (Cons x s)
  then show ?case by (simp add: match_here_literal)
qed

lemma re_dots_literal:
  assumes "\<not> list_ex (\<lambda>c. c \<in> set other_special) pat" and "46 \<notin> set pat"
  shows "re_dots pat = Some (re_search (map Lit pat))"
proof -
  from assms(2) have "map (\<lambda>c. if c = 46 then AnyChar else Lit c) pat = map Lit pat"
    by (induction pat) auto
  then have "re_search (map (\<lambda>c. if c = 46 then AnyChar else Lit c) pat)
      = re_search (map Lit pat)"
    by (rule arg_cong)
  with assms(1) show ?thesis by (simp add: re_dots_def)
qed

lemma station_matches_literal:
  assumes "\<not> list_ex (\<lambda>c. c \<in> set other_special) pat" and "46 \<notin> set pat"
  shows "station_matches re_dots pat x = (case x of None \<Rightarrow> False | Some s \<Rightarrow> py_in pat s)"
  using re_dots_literal [OF assms]
  by (simp add: station_matches_def str_contains_def re_search_literal split: option.splits)

section \<open>Properties of the comment mapping\<close>

text \<open>
  C10: a record whose title does not contain the marker receives the static
  not-available text, and the auxiliary text is returned only for a title that contains
  the marker (where it is returned whenever it is not empty).
\<close>

theorem resolve_comment_marker:
  "(\<not> py_in marker t \<longrightarrow> resolve_comment t base = unavailable_text)
   \<and> (resolve_comment t base = base \<and> base \<noteq> unavailable_text \<longrightarrow> py_in marker t)
   \<and> (py_in marker t \<and> base \<noteq> [] \<longrightarrow> resolve_comment t base = base)"
  by (simp add: resolve_comment_def)

lemma note_not_unavailable: "ascii ''note'' \<noteq> unavailable_text"
  by (simp add: ascii_def unavailable_text_def)

theorem resolve_comment_marker_witness:
  "\<not> py_in marker (ascii ''Gangnam 1'')
   \<and> resolve_comment (ascii ''Gangnam 1'') (ascii ''note'') = unavailable_text
   \<and> resolve_comment (marker @ ascii '' 2'') (ascii ''note'') = ascii ''note''
   \<and> ascii ''note'' \<noteq> unavailable_text
   \<and> ascii ''note'' \<noteq> []
   \<and> py_in marker (marker @ ascii '' 2'')"
proof -
  have a: "\<not> py_in marker (ascii ''Gangnam 1'')"
    by (simp add: marker_def ascii_def)
  have b: "py_in marker (marker @ ascii '' 2'')"
    by (simp add: marker_def ascii_def)
  have c: "ascii ''note'' \<noteq> []"
    by (simp add: ascii_def)
  from a resolve_comment_marker [of "ascii ''Gangnam 1''" "ascii ''note''"]
  have d: "resolve_comment (ascii ''Gangnam 1'') (ascii ''note'') = unavailable_text"
    by blast
  from b c resolve_comment_marker [of "marker @ ascii '' 2''" "ascii ''note''"]
  have e: "resolve_comment (marker @ ascii '' 2'') (ascii ''note'') = ascii ''note''"
    by blast
  from a b c d e note_not_unavailable show ?thesis by blast
qed

section \<open>Properties of the filter steps\<close>

lemma keep_columns: "columns (keep p df) = columns df"
  by (simp add: keep_def)

lemma keep_rows: "rows (keep p df) = filter p (rows df)"
  by (simp add: keep_def)

lemma keep_all: "(\<And>r. r \<in> set (rows df) \<Longrightarrow> p r) \<Longrightarrow> keep p df = df"
  by (simp add: keep_def)

text \<open>
  C7 (as stated): with the option enabled the filter drops exactly the rows whose flag
  is true.  The code keeps the rows whose flag equals \<open>False\<close>, so a row whose flag is
  missing is dropped as well: of the two example listings the second, whose flag is
  missing, is removed.
\<close>

theorem filter_premium_missing_flag_counterexample:
  "is_premium_closed listing_b \<noteq> Some True
   \<and> filter_premium (no_criteria\<lparr>hide_premium_closed := True\<rparr>) frame_ab
       = Inr (frame_ab\<lparr>rows := [listing_a]\<rparr>)"
  by (simp add: filter_premium_def no_criteria_def frame_ab_def raw_columns_def keep_def
      listing_a_def listing_b_def)

text \<open>
  C7 (amended): with the option enabled and the flag column present, the filter keeps
  exactly the rows whose flag is false, in their order (rows whose flag is true are
  dropped, and so are rows whose flag is missing); with the option disabled or the
  column absent it changes nothing.
\<close>

theorem filter_premium_keeps_false:
  "(hide_premium_closed c \<and> C_is_premium_closed \<in> columns df \<longrightarrow>
      filter_premium c df
        = Inr (df\<lparr>rows := filter (\<lambda>r. is_premium_closed r = Some False) (rows df)\<rparr>))
   \<and> (C_is_premium_closed \<notin> columns df \<or> \<not> hide_premium_closed c \<longrightarrow>
        filter_premium c df = Inr df)"
  by (auto simp: filter_premium_def keep_def)

theorem filter_premium_keeps_false_witness:
  "hide_premium_closed (no_criteria\<lparr>hide_premium_closed := True\<rparr>)
   \<and> C_is_premium_closed \<in> columns frame_ab
   \<and> filter_premium (no_criteria\<lparr>hide_premium_closed := True\<rparr>) frame_ab
       = Inr (frame_ab\<lparr>rows := [listing_a]\<rparr>)
   \<and> C_is_premium_closed \<notin> columns (frame_ab\<lparr>columns := {C_title}\<rparr>)
   \<and> filter_premium (no_criteria\<lparr>hide_premium_closed := True\<rparr>)
         (frame_ab\<lparr>columns := {C_title}\<rparr>)
       = Inr (frame_ab\<lparr>columns := {C_title}\<rparr>)"
proof -
  have k: "filter (\<lambda>r. is_premium_closed r = Some False) (rows frame_ab) = [listing_a]"
    by (simp add: frame_ab_def listing_a_def listing_b_def)
  have h: "hide_premium_closed (no_criteria\<lparr>hide_premium_closed := True\<rparr>)" by simp
  have c: "C_is_premium_closed \<in> columns frame_ab"
    by (simp add: frame_ab_def raw_columns_def)
  have n: "C_is_premium_closed \<notin> columns (frame_ab\<lparr>columns := {C_title}\<rparr>)" by simp
  from h c n k
    filter_premium_keeps_false [of "no_criteria\<lparr>hide_premium_closed := True\<rparr>" frame_ab]
    filter_premium_keeps_false [of "no_criteria\<lparr>hide_premium_closed := True\<rparr>"
      "frame_ab\<lparr>columns := {C_title}\<rparr>"]
  show ?thesis by simp
qed

text \<open>
  C6: with a search text, a row should pass exactly when its station field is present
  and contains the text as a substring.  The code hands the text to \<open>str.contains\<close> as
  a regular expression: the search text \<open>.\<close> keeps the first example listing, whose
  station field contains no dot.
\<close>

theorem filter_station_dot:
  "filter_station re_dots (no_criteria\<lparr>search_station := ascii ''.''\<rparr>) frame_ab
     = Inr (frame_ab\<lparr>rows := [listing_a]\<rparr>)
   \<and> near_subway_station listing_a = Some (ascii ''Ichon, 5 min'')
   \<and> \<not> py_in (ascii ''.'') (ascii ''Ichon, 5 min'')"
  by (simp add: filter_station_def no_criteria_def frame_ab_def raw_columns_def keep_def
      listing_a_def listing_b_def re_dots_def other_special_def ascii_def str_contains_def)

lemma col_min_le: "col_min xs = Some m \<Longrightarrow> v \<in> set xs \<Longrightarrow> m \<le> v"
proof (cases xs)
  case Nil
  then show "col_min xs = Some m \<Longrightarrow> v \<in> set xs \<Longrightarrow> m \<le> v" by simp
next
  case (Cons x ys)
  assume "col_min xs = Some m" and v: "v \<in> set xs"
  with Cons have "m = fold min ys x" by (simp add: col_min_def)
  also have "\<dots> = Min (set (x # ys))" by (rule Min.set_eq_fold [symmetric])
  also have "\<dots> \<le> v" using v Cons by (intro Min_le) simp_all
  finally show "m \<le> v" .
qed

lemma col_max_ge: "col_max xs = Some m \<Longrightarrow> v \<in> set xs \<Longrightarrow> v \<le> m"
proof (cases xs)
  case Nil
  then show "col_max xs = Some m \<Longrightarrow> v \<in> set xs \<Longrightarrow> v \<le> m" by simp
next
  case (Cons x ys)
  assume "col_max xs = Some m" and v: "v \<in> set xs"
  have "v \<le> Max (set (x # ys))" using v Cons by (intro Max_ge) simp_all
  also have "\<dots> = fold max ys x" by (rule Max.set_eq_fold)
  also from \<open>col_max xs = Some m\<close> Cons have "\<dots> = m" by (simp add: col_max_def)
  finally show "v \<le> m" .
qed

lemma filter_rent_full:
  assumes "col_min (map monthly_rent_disp (rows df)) = Some lo"
    and "col_max (map monthly_rent_disp (rows df)) = Some hi"
    and "rent_range c = Some (lo, hi)"
  shows "filter_rent c df = Inr df"
proof -
  have "in_range (rent_range c) (monthly_rent_disp r)" if "r \<in> set (rows df)" for r
  proof -
    from that have "monthly_rent_disp r \<in> set (map monthly_rent_disp (rows df))" by simp
    with assms(1,2) have "lo \<le> monthly_rent_disp r" "monthly_rent_disp r \<le> hi"
      by (blast intro: col_min_le col_max_ge)+
    with assms(3) show ?thesis by (simp add: in_range_def)
  qed
  then have "keep (\<lambda>r. in_range (rent_range c) (monthly_rent_disp r)) df = df"
    by (rule keep_all)
  then show ?thesis by (simp add: filter_rent_def)
qed

lemma degenerate_range_keeps_all:
  assumes "C_monthly_rent_disp \<in> columns df"
    and "col_min (map monthly_rent_disp (rows df)) = Some m"
    and "col_max (map monthly_rent_disp (rows df)) = Some m"
    and "industry_select w = all_label" and "station_text w = []" and "\<not> hide_checkbox w"
  shows "rent_range (sidebar w df) = Some (m, m) \<and> f_df rc (sidebar w df) df = Inr df"
proof -
  have r: "rent_range (sidebar w df) = Some (m, m)"
    using assms(1-3) by (simp add: sidebar_def rent_range_of_def)
  have s: "sel_ind (sidebar w df) = all_label"
    using assms(4) by (simp add: sidebar_def sel_ind_of_def)
  have 1: "filter_industry (sidebar w df) df = Inr df"
    using s by (simp add: filter_industry_def)
  have 2: "filter_station rc (sidebar w df) df = Inr df"
    using assms(5) by (simp add: filter_station_def sidebar_def)
  have 3: "filter_premium (sidebar w df) df = Inr df"
    using assms(6) by (simp add: filter_premium_def sidebar_def)
  have 4: "filter_rent (sidebar w df) df = Inr df"
    using assms(2,3) r by (rule filter_rent_full)
  from 1 2 3 4 have "f_df rc (sidebar w df) df = Inr df"
    by (simp add: f_df_def filter_steps_def)
  with r show ?thesis by blast
qed

text \<open>
  C8: when the smallest and the largest display-unit rent of the table are equal, the
  rent range is that single value, and filtering with it (no other criterion set)
  returns the whole table unchanged, without an error.
\<close>

theorem degenerate_rent_range:
  assumes "C_monthly_rent_disp \<in> columns df"
    and "col_min (map monthly_rent_disp (rows df)) = Some m"
    and "col_max (map monthly_rent_disp (rows df)) = Some m"
    and "industry_select w = all_label" and "station_text w = []" and "\<not> hide_checkbox w"
  shows "rent_range (sidebar w df) = Some (m, m) \<and> f_df rc (sidebar w df) df = Inr df"
  using assms by (rule degenerate_range_keeps_all)

lemma convert_examples:
  "convert_price (PyInt 50000) man = Inr 5000" "convert_price (PyInt 3000) man = Inr 300"
  "convert_price (PyInt 0) man = Inr 0"
  "convert_price (PyInt 50000) won = Inr 50000000" "convert_price (PyInt 3000) won = Inr 3000000"
  "convert_price (PyInt 0) won = Inr 0"
  "convert_price PyNone u = Inr 0" "convert_price NaN u = Inr 0"
  by (simp_all add: convert_price_def overflows_def man_def won_def fl_eval)

lemma preprocess_frame_ab: "preprocess man frame_ab = Inr frame_ab_man"
  by (simp add: preprocess_def price_cols_def add_disp_def add_regDate_def convert_row_def
      convert_examples frame_ab_def frame_ab_man_def disp_columns_def raw_columns_def
      listing_a_def listing_b_def insert_commute)

lemma preprocess_frame_ab_won: "preprocess won frame_ab = Inr frame_ab_won"
  by (simp add: preprocess_def price_cols_def add_disp_def add_regDate_def convert_row_def
      convert_examples frame_ab_def frame_ab_won_def disp_columns_def raw_columns_def
      listing_a_def listing_b_def insert_commute)

theorem degenerate_rent_range_witness:
  "preprocess man frame_ab = Inr frame_ab_man
   \<and> C_monthly_rent_disp \<in> columns frame_ab_man
   \<and> col_min (map monthly_rent_disp (rows frame_ab_man)) = Some 300
   \<and> col_max (map monthly_rent_disp (rows frame_ab_man)) = Some 300
   \<and> industry_select widgets_default = all_label
   \<and> station_text widgets_default = []
   \<and> hide_checkbox widgets_default = False
   \<and> rent_range (sidebar widgets_default frame_ab_man) = Some (300, 300)
   \<and> f_df re_dots (sidebar widgets_default frame_ab_man) frame_ab_man = Inr frame_ab_man"
proof -
  have a: "C_monthly_rent_disp \<in> columns frame_ab_man"
    by (simp add: frame_ab_man_def disp_columns_def)
  have b: "col_min (map monthly_rent_disp (rows frame_ab_man)) = Some 300"
    by (simp add: frame_ab_man_def col_min_def listing_a_def listing_b_def)
  have c: "col_max (map monthly_rent_disp (rows frame_ab_man)) = Some 300"
    by (simp add: frame_ab_man_def col_max_def listing_a_def listing_b_def)
  have d: "industry_select widgets_default = all_label"
    by (simp add: widgets_default_def)
  have e: "station_text widgets_default = []"
    by (simp add: widgets_default_def)
  have f: "\<not> hide_checkbox widgets_default"
    by (simp add: widgets_default_def)
  from a b c d e f preprocess_frame_ab degenerate_rent_range [OF a b c d e f, of re_dots]
  show ?thesis by blast
qed

section \<open>Properties of the views\<close>

text \<open>
  C5: when the filter leaves no row, rendering does not raise: the count shows \<open>0\<close>, the
  two median metrics and the mean metric show the placeholder \<open>-\<close>, and the charts,
  the trend and the result table with its detail panel are replaced by their "no data"
  notes.  On the empty table the median and the mean are undefined (NaN) and the
  grouping by date has no group.
\<close>

theorem empty_result_views:
  assumes "rows f = []"
  shows "render img unit_choice target_unit base_comment w f =
           Inr \<lparr>kpi1 = (label_count, ascii ''0'' @ count_suffix),
                kpi2 = (label_rent @ unit_choice @ ascii '')'', ascii ''-''),
                kpi3 = (label_deposit @ target_unit @ unit_suffix @ ascii '')'', ascii ''-''),
                kpi4 = (label_area, ascii ''-''),
                charts = Info no_chart_text,
                trend = Info no_trend_text,
                results = Info no_result_text\<rparr>
         \<and> median (map (disp_val fld) (rows f)) = None
         \<and> mean (map size_val (rows f)) = None
         \<and> group_by_date f = []"
proof -
  from assms have e: "empty f" by (simp add: empty_def)
  have k1: "kpi_count f = ascii ''0'' @ count_suffix"
    using assms by (simp add: kpi_count_def decimal_lt10 ascii_def)
  have k2: "kpi_median target_unit fl f = ascii ''-''" for fl
    using e by (simp add: kpi_median_def)
  have k4: "kpi_area f = ascii ''-''"
    using e by (simp add: kpi_area_def)
  have ch: "charts_view f = Inr (Info no_chart_text)"
    using e by (simp add: charts_view_def)
  have tr: "trend_view f = Info no_trend_text"
    using e by (simp add: trend_view_def)
  have rs: "results_view img target_unit base_comment w f = Inr (Info no_result_text)"
    using e by (simp add: results_view_def)
  have r: "render img unit_choice target_unit base_comment w f =
           Inr \<lparr>kpi1 = (label_count, ascii ''0'' @ count_suffix),
                kpi2 = (label_rent @ unit_choice @ ascii '')'', ascii ''-''),
                kpi3 = (label_deposit @ target_unit @ unit_suffix @ ascii '')'', ascii ''-''),
                kpi4 = (label_area, ascii ''-''),
                charts = Info no_chart_text,
                trend = Info no_trend_text,
                results = Info no_result_text\<rparr>"
    by (simp add: render_def k1 k2 k4 ch tr rs)
  have m: "median (map (disp_val fld) (rows f)) = None"
    using assms by (simp add: median_def)
  have a: "mean (map size_val (rows f)) = None"
    using assms by (simp add: mean_def List.map_filter_simps)
  have g: "group_by_date f = []"
    using assms by (simp add: group_by_date_def List.map_filter_simps)
  from r m a g show ?thesis by blast
qed

theorem empty_result_views_witness:
  "preprocess man frame_ab = Inr frame_ab_man
   \<and> f_df re_dots (no_criteria\<lparr>search_station := ascii ''zzz'', rent_range := Some (0, 1000)\<rparr>)
       frame_ab_man
     = Inr (frame_ab_man\<lparr>rows := []\<rparr>)
   \<and> rows (frame_ab_man\<lparr>rows := []\<rparr>) = []
   \<and> render image_one manwon man [] widgets_default (frame_ab_man\<lparr>rows := []\<rparr>) =
           Inr \<lparr>kpi1 = (label_count, ascii ''0'' @ count_suffix),
                kpi2 = (label_rent @ manwon @ ascii '')'', ascii ''-''),
                kpi3 = (label_deposit @ man @ unit_suffix @ ascii '')'', ascii ''-''),
                kpi4 = (label_area, ascii ''-''),
                charts = Info no_chart_text,
                trend = Info no_trend_text,
                results = Info no_result_text\<rparr>"
proof -
  have a: "f_df re_dots
       (no_criteria\<lparr>search_station := ascii ''zzz'', rent_range := Some (0, 1000)\<rparr>)
       frame_ab_man
     = Inr (frame_ab_man\<lparr>rows := []\<rparr>)"
    by (simp add: frame_ab_man_def f_df_def filter_steps_def filter_industry_def
        filter_station_def filter_premium_def filter_rent_def no_criteria_def keep_def
        disp_columns_def raw_columns_def re_dots_def other_special_def ascii_def
        str_contains_def listing_a_def listing_b_def in_range_def)
  have b: "rows (frame_ab_man\<lparr>rows := []\<rparr>) = []" by simp
  from a b preprocess_frame_ab
    empty_result_views [OF b, of image_one manwon man "[]" widgets_default]
  show ?thesis by blast
qed

section \<open>Properties of the load\<close>

lemma apply_rows_all2:
  "apply_rows f rs = Inr rs' \<Longrightarrow> list_all2 (\<lambda>r r'. f r = Inr r') rs rs'"
  by (induction rs arbitrary: rs') (auto split: sum.splits)

lemma decode_column_Inr:
  assumes "decode_column loads col df = Inr df'"
  shows "columns df' = columns df"
    and "col \<in> columns df \<Longrightarrow> list_all2 (\<lambda>r r'. decode_row loads col r = Inr r') (rows df) (rows df')"
    and "col \<notin> columns df \<Longrightarrow> df' = df"
  using assms by (auto simp: decode_column_def split: if_splits sum.splits dest: apply_rows_all2)

lemma decode_row_small:
  "decode_row loads C_small_photo_urls r = Inr r' \<Longrightarrow>
     \<exists>c. decode_cell loads (small_photo_urls r) = Inr c \<and> r' = r\<lparr>small_photo_urls := c\<rparr>"
  by (auto simp: decode_row_def split: sum.splits)

lemma decode_row_origin:
  "decode_row loads C_origin_photo_urls r = Inr r' \<Longrightarrow>
     \<exists>c. decode_cell loads (origin_photo_urls r) = Inr c \<and> r' = r\<lparr>origin_photo_urls := c\<rparr>"
  by (auto simp: decode_row_def split: sum.splits)

text \<open>A table that the load returns without a reported error has the columns of the
  stored one and, row by row, its photo cells decoded and nothing else changed.\<close>

lemma load_db_data_decodes:
  assumes "load_db_data loads (Some df) = \<lparr>reported = None, frame = df'\<rparr>"
  shows "columns df' = columns df
         \<and> list_all2 (decoded_into loads (columns df)) (rows df) (rows df')"
proof -
  let ?S = "\<lambda>(r::listing) r1. if C_small_photo_urls \<in> columns df
              then \<exists>c. decode_cell loads (small_photo_urls r) = Inr c
                        \<and> r1 = r\<lparr>small_photo_urls := c\<rparr>
              else r1 = r"
  let ?T = "\<lambda>(r1::listing) r'. if C_origin_photo_urls \<in> columns df
              then \<exists>c. decode_cell loads (origin_photo_urls r1) = Inr c
                        \<and> r' = r1\<lparr>origin_photo_urls := c\<rparr>
              else r' = r1"
  from assms obtain df1 where
    1: "decode_column loads C_small_photo_urls df = Inr df1" and
    2: "decode_column loads C_origin_photo_urls df1 = Inr df'"
    by (auto simp: load_db_data_def json_cols_def split: sum.splits)
  note a = decode_column_Inr [OF 1] and b = decode_column_Inr [OF 2]
  have c: "columns df' = columns df" using a(1) b(1) by simp
  have s: "list_all2 ?S (rows df) (rows df1)"
  proof (cases "C_small_photo_urls \<in> columns df")
    case True
    from a(2) [OF True] show ?thesis
      by (rule list_all2_mono) (use True in \<open>auto dest: decode_row_small\<close>)
  next
    case False
    with a(3) show ?thesis by (simp add: list_all2_same)
  qed
  have t: "list_all2 ?T (rows df1) (rows df')"
  proof (cases "C_origin_photo_urls \<in> columns df")
    case True
    then have "C_origin_photo_urls \<in> columns df1" using a(1) by simp
    from b(2) [OF this] show ?thesis
      by (rule list_all2_mono) (use True in \<open>auto dest: decode_row_origin\<close>)
  next
    case False
    then have "C_origin_photo_urls \<notin> columns df1" using a(1) by simp
    with b(3) False show ?thesis by (simp add: list_all2_same)
  qed
  have u: "decoded_into loads (columns df) r r'" if "?S r r1" and "?T r1 r'" for r r1 r'
    using that unfolding decoded_into_def by (auto split: if_splits)
  have "list_all2 (decoded_into loads (columns df)) (rows df) (rows df')"
    using u s t by (rule list_all2_trans)
  with c show ?thesis by blast
qed

text \<open>What the decoding does with each kind of cell, and that the load returns either
  without a reported error or with the empty table.\<close>

lemma decode_cell_cases:
  "decode_cell loads Null = Inr (Items [])"
  "decode_cell loads (Text []) = Inr (Items [])"
  "take 1 s = ascii ''['' \<Longrightarrow> loads s = Some xs \<Longrightarrow> decode_cell loads (Text s) = Inr (Items xs)"
  "take 1 s = ascii ''['' \<Longrightarrow> loads s = None \<Longrightarrow> decode_cell loads (Text s) = Inl JSONDecodeError"
  "t \<noteq> [] \<Longrightarrow> take 1 t \<noteq> ascii ''['' \<Longrightarrow> decode_cell loads (Text t) = Inr (Text t)"
  by (simp_all add: decode_cell_def ascii_def)

lemma load_db_data_total:
  "reported (load_db_data loads query) = None \<or> frame (load_db_data loads query) = empty_frame"
  by (simp add: load_db_data_def split: option.splits sum.splits)

lemma load_stored_ab:
  "load_db_data loads_two (Some stored_ab) = \<lparr>reported = None, frame = frame_ab\<rparr>"
  by (simp add: load_db_data_def json_cols_def decode_column_def decode_row_def
      decode_cell_def loads_two_def stored_ab_def frame_ab_def raw_columns_def listing_a_def
      listing_b_def photo_json_def photo_url_def ascii_def)

lemma load_malformed_array:
  "load_db_data loads_two
     (Some (stored_ab\<lparr>rows := [listing_a\<lparr>small_photo_urls := Text (ascii ''[abc'')\<rparr>]\<rparr>))
   = \<lparr>reported = Some JSONDecodeError, frame = empty_frame\<rparr>"
  by (simp add: load_db_data_def json_cols_def decode_column_def decode_row_def
      decode_cell_def loads_two_def stored_ab_def raw_columns_def listing_a_def
      photo_json_def photo_url_def ascii_def)

lemma gallery_undecoded:
  "gallery image_one raw_columns (listing_a\<lparr>small_photo_urls := Text (ascii ''abc'')\<rparr>)
     = Inl ImageError"
  by (simp add: gallery_def cell_truthy_def raw_columns_def listing_a_def image_one_def
      photo_url_def ascii_def)

text \<open>
  C2: a malformed value of a photo column should decode to the empty sequence, with no
  exception reaching the caller.  The code decodes only a text that starts with \<open>[\<close>
  and keeps every other non-empty text as it is: the text \<open>abc\<close>, which \<open>json.loads\<close>
  rejects, stays the string \<open>abc\<close>, and the gallery of the detail panel then hands its
  characters to \<open>st.image\<close>, which raises.  For a malformed text that starts with \<open>[\<close>,
  \<open>json.loads\<close> raises inside the load, whose \<open>except\<close> clause returns the empty table:
  the whole table is lost, not the one cell.
\<close>

theorem malformed_photo_cell:
  "loads_two (ascii ''abc'') = None
   \<and> decode_cell loads_two (Text (ascii ''abc'')) = Inr (Text (ascii ''abc''))
   \<and> Text (ascii ''abc'') \<noteq> Items []
   \<and> gallery image_one raw_columns (listing_a\<lparr>small_photo_urls := Text (ascii ''abc'')\<rparr>)
       = Inl ImageError
   \<and> loads_two (ascii ''[abc'') = None
   \<and> load_db_data loads_two
       (Some (stored_ab\<lparr>rows := [listing_a\<lparr>small_photo_urls := Text (ascii ''[abc'')\<rparr>]\<rparr>))
       = \<lparr>reported = Some JSONDecodeError, frame = empty_frame\<rparr>"
proof -
  have a: "loads_two (ascii ''abc'') = None" "loads_two (ascii ''[abc'') = None"
    by (simp_all add: loads_two_def photo_json_def photo_url_def ascii_def)
  have b: "decode_cell loads_two (Text (ascii ''abc'')) = Inr (Text (ascii ''abc''))"
    by (simp add: decode_cell_def ascii_def)
  from a b gallery_undecoded load_malformed_array show ?thesis by simp
qed

section \<open>Properties of the filter as a whole\<close>

lemma keep_keep: "keep q (keep p df) = keep (\<lambda>r. p r \<and> q r) df"
  by (simp add: keep_def)

lemma keep_True: "keep (\<lambda>r. True) df = df"
  by (simp add: keep_def)

lemma keep_eqI: "(\<And>r. p r = q r) \<Longrightarrow> keep p df = keep q df"
proof -
  assume "\<And>r. p r = q r"
  then have "p = q" by (intro ext)
  then show ?thesis by simp
qed

lemma step_pred_industry:
  "keep (step_pred rc c cols ByIndustry) df =
     (if sel_ind c = all_label then df
      else keep (\<lambda>r. business_middle_code_name r = sel_ind c) df)"
proof (cases "sel_ind c = all_label")
  case True
  then have "keep (step_pred rc c cols ByIndustry) df = keep (\<lambda>r. True) df"
    by (intro keep_eqI) simp
  with True show ?thesis by (simp add: keep_True)
next
  case False
  then have "keep (step_pred rc c cols ByIndustry) df
      = keep (\<lambda>r. business_middle_code_name r = sel_ind c) df"
    by (intro keep_eqI) simp
  with False show ?thesis by simp
qed

lemma step_pred_station:
  "keep (step_pred rc c cols ByStation) df =
     (if search_station c \<noteq> [] \<and> C_near_subway_station \<in> cols
      then keep (\<lambda>r. station_matches rc (search_station c) (near_subway_station r)) df
      else df)"
proof (cases "search_station c \<noteq> [] \<and> C_near_subway_station \<in> cols")
  case True
  then have "keep (step_pred rc c cols ByStation) df
      = keep (\<lambda>r. station_matches rc (search_station c) (near_subway_station r)) df"
    by (intro keep_eqI) simp
  with True show ?thesis by simp
next
  case False
  then have "keep (step_pred rc c cols ByStation) df = keep (\<lambda>r. True) df"
    by (intro keep_eqI) auto
  with False show ?thesis by (auto simp: keep_True)
qed

lemma step_pred_premium:
  "keep (step_pred rc c cols ByPremium) df =
     (if hide_premium_closed c \<and> C_is_premium_closed \<in> cols
      then keep (\<lambda>r. is_premium_closed r = Some False) df
      else df)"
proof (cases "hide_premium_closed c \<and> C_is_premium_closed \<in> cols")
  case True
  then have "keep (step_pred rc c cols ByPremium) df
      = keep (\<lambda>r. is_premium_closed r = Some False) df"
    by (intro keep_eqI) simp
  with True show ?thesis by simp
next
  case False
  then have "keep (step_pred rc c cols ByPremium) df = keep (\<lambda>r. True) df"
    by (intro keep_eqI) auto
  with False show ?thesis by (auto simp: keep_True)
qed

lemma step_pred_rent:
  "keep (step_pred rc c cols ByRent) df =
     (if C_monthly_rent_disp \<in> cols
      then keep (\<lambda>r. in_range (rent_range c) (monthly_rent_disp r)) df
      else df)"
proof (cases "C_monthly_rent_disp \<in> cols")
  case True
  then have "keep (step_pred rc c cols ByRent) df
      = keep (\<lambda>r. in_range (rent_range c) (monthly_rent_disp r)) df"
    by (intro keep_eqI) simp
  with True show ?thesis by simp
next
  case False
  then have "keep (step_pred rc c cols ByRent) df = keep (\<lambda>r. True) df"
    by (intro keep_eqI) auto
  with False show ?thesis by (auto simp: keep_True)
qed

lemma apply_step_shape:
  assumes "sel_ind c = all_label \<or> C_business_middle_code_name \<in> columns df"
  shows "apply_step rc c t df =
           (if t = ByStation \<and> pattern_invalid rc c (columns df)
            then Inl ReError
            else Inr (keep (step_pred rc c (columns df) t) df))"
proof (cases t)
  case ByIndustry
  then show ?thesis using assms by (auto simp: filter_industry_def step_pred_industry)
next
  case ByStation
  show ?thesis
  proof (cases "search_station c \<noteq> [] \<and> C_near_subway_station \<in> columns df")
    case False
    then have "filter_station rc c df = Inr df" "\<not> pattern_invalid rc c (columns df)"
      "keep (step_pred rc c (columns df) ByStation) df = df"
      by (auto simp: filter_station_def pattern_invalid_def step_pred_station)
    with ByStation show ?thesis by simp
  next
    case True
    show ?thesis
    proof (cases "rc (search_station c)")
      case None
      with True have "filter_station rc c df = Inl ReError"
        "pattern_invalid rc c (columns df)"
        by (simp_all add: filter_station_def pattern_invalid_def)
      with ByStation show ?thesis by simp
    next
      case (Some p)
      then have "keep (\<lambda>r. station_matches rc (search_station c) (near_subway_station r)) df
          = keep (\<lambda>r. str_contains p (near_subway_station r)) df"
        by (intro keep_eqI) (simp add: station_matches_def)
      with True Some have "filter_station rc c df = Inr (keep (step_pred rc c (columns df) ByStation) df)"
        "\<not> pattern_invalid rc c (columns df)"
        by (simp_all add: filter_station_def pattern_invalid_def step_pred_station)
      with ByStation show ?thesis by simp
    qed
  qed
next
  case ByPremium
  then show ?thesis by (auto simp: filter_premium_def step_pred_premium)
next
  case ByRent
  then show ?thesis by (auto simp: filter_rent_def step_pred_rent)
qed

lemma run_steps_shape:
  assumes "sel_ind c = all_label \<or> C_business_middle_code_name \<in> columns df"
  shows "run_steps rc c ts df =
           (if ByStation \<in> set ts \<and> pattern_invalid rc c (columns df)
            then Inl ReError
            else Inr (keep (\<lambda>r. \<forall>t\<in>set ts. step_pred rc c (columns df) t r) df))"
  using assms
proof (induction ts arbitrary: df)
  case Nil
  then show ?case by (simp add: keep_True)
next
  case (Cons t ts)
  let ?df1 = "keep (step_pred rc c (columns df) t) df"
  have cols: "columns ?df1 = columns df" by (simp add: keep_columns)
  with Cons.prems have wf1: "sel_ind c = all_label \<or> C_business_middle_code_name \<in> columns ?df1"
    by simp
  note ih = Cons.IH [OF wf1, unfolded cols]
  have k: "keep (\<lambda>r. \<forall>t\<in>set ts. step_pred rc c (columns df) t r) ?df1
             = keep (\<lambda>r. \<forall>t\<in>set (t # ts). step_pred rc c (columns df) t r) df"
    by (simp add: keep_keep)
  show ?case
    using apply_step_shape [OF Cons.prems, where t = t and rc = rc] ih k by auto
qed

lemma passes_all_steps:
  "keep (\<lambda>r. \<forall>t\<in>set filter_steps. step_pred rc c cols t r) df = keep (passes rc c cols) df"
  by (intro keep_eqI) (simp add: filter_steps_def passes_def)

text \<open>
  C4: for every table and every fixed set of criteria (the rent bounds are part of the
  criteria, computed beforehand from the unfiltered table), running the four filter
  statements in any order gives the result of the script's order, and that result
  keeps exactly the rows that pass all four row tests, an absent criterion letting
  every row pass.  The category select box offers a category only when the table has
  the category column, which is the third assumption.  When the station filter is
  active and \<open>re.compile\<close> rejects the search text, every order raises \<open>re.error\<close>.
\<close>

theorem filter_order_independent:
  assumes "distinct order" and "set order = set filter_steps"
    and "sel_ind c = all_label \<or> C_business_middle_code_name \<in> columns df"
  shows "run_steps rc c order df = f_df rc c df
         \<and> f_df rc c df = (if pattern_invalid rc c (columns df)
                         then Inl ReError
                         else Inr (keep (passes rc c (columns df)) df))"
proof -
  have s: "ByStation \<in> set filter_steps" by (simp add: filter_steps_def)
  have a: "run_steps rc c order df = run_steps rc c filter_steps df"
    using run_steps_shape [OF assms(3), where ts = order and rc = rc]
      run_steps_shape [OF assms(3), where ts = filter_steps and rc = rc] assms(2)
    by simp
  have b: "run_steps rc c filter_steps df =
             (if pattern_invalid rc c (columns df) then Inl ReError
              else Inr (keep (passes rc c (columns df)) df))"
    using run_steps_shape [OF assms(3), where ts = filter_steps and rc = rc] s
    by (simp add: passes_all_steps)
  from a b show ?thesis by (simp add: f_df_def)
qed

lemma f_df_cafe:
  "f_df re_dots criteria_cafe frame_ab_man
     = Inr (frame_ab_man\<lparr>rows :=
         [listing_a\<lparr>deposit_disp := 5000, monthly_rent_disp := 300, regDate := Some 19000\<rparr>]\<rparr>)"
  by (simp add: frame_ab_man_def f_df_def filter_steps_def filter_industry_def
        filter_station_def filter_premium_def filter_rent_def criteria_cafe_def keep_def
        disp_columns_def raw_columns_def re_dots_def other_special_def ascii_def
        str_contains_def listing_a_def listing_b_def in_range_def all_label_def)

theorem filter_order_independent_witness:
  "distinct [ByRent, ByPremium, ByStation, ByIndustry]
   \<and> set [ByRent, ByPremium, ByStation, ByIndustry] = set filter_steps
   \<and> C_business_middle_code_name \<in> columns frame_ab_man
   \<and> \<not> pattern_invalid re_dots criteria_cafe (columns frame_ab_man)
   \<and> run_steps re_dots criteria_cafe [ByRent, ByPremium, ByStation, ByIndustry] frame_ab_man
       = Inr (frame_ab_man\<lparr>rows :=
           [listing_a\<lparr>deposit_disp := 5000, monthly_rent_disp := 300, regDate := Some 19000\<rparr>]\<rparr>)
   \<and> Inr (keep (passes re_dots criteria_cafe (columns frame_ab_man)) frame_ab_man)
       = f_df re_dots criteria_cafe frame_ab_man"
proof -
  have a: "distinct [ByRent, ByPremium, ByStation, ByIndustry]" by simp
  have b: "set [ByRent, ByPremium, ByStation, ByIndustry] = set filter_steps"
    by (auto simp: filter_steps_def)
  have c: "C_business_middle_code_name \<in> columns frame_ab_man"
    by (simp add: frame_ab_man_def disp_columns_def raw_columns_def)
  then have c': "sel_ind criteria_cafe = all_label
      \<or> C_business_middle_code_name \<in> columns frame_ab_man"
    by blast
  have d: "\<not> pattern_invalid re_dots criteria_cafe (columns frame_ab_man)"
    by (simp add: pattern_invalid_def criteria_cafe_def re_dots_def other_special_def
        ascii_def)
  note t = filter_order_independent [OF a b c', where rc = re_dots]
  from t f_df_cafe have e: "run_steps re_dots criteria_cafe
      [ByRent, ByPremium, ByStation, ByIndustry] frame_ab_man
       = Inr (frame_ab_man\<lparr>rows :=
           [listing_a\<lparr>deposit_disp := 5000, monthly_rent_disp := 300, regDate := Some 19000\<rparr>]\<rparr>)"
    by simp
  from t d have f: "Inr (keep (passes re_dots criteria_cafe (columns frame_ab_man)) frame_ab_man)
       = f_df re_dots criteria_cafe frame_ab_man"
    by simp
  from a b c d e f show ?thesis by blast
qed

section \<open>Properties of the display columns\<close>

lemma raw_col_not_disp: "raw_col f \<noteq> disp_col g" "raw_col f \<noteq> C_regDate"
  by (cases f; cases g; simp)+

lemma raw_val_set_disp: "raw_val f (set_disp g v r) = raw_val f r"
  by (cases f; cases g; simp)

lemma disp_val_set_disp: "disp_val f (set_disp g v r) = (if f = g then v else disp_val f r)"
  by (cases f; cases g; simp)

lemma convert_row_Inr:
  "convert_row u g r = Inr r' \<Longrightarrow>
     \<exists>v. convert_price (raw_val g r) u = Inr v \<and> r' = set_disp g v r"
  by (auto simp: convert_row_def split: sum.splits)

lemma add_disp_Inr:
  assumes "add_disp u g df = Inr df'"
  shows "raw_col g \<notin> columns df \<Longrightarrow> df' = df"
    and "raw_col g \<in> columns df \<Longrightarrow>
           columns df' = insert (disp_col g) (columns df)
           \<and> list_all2 (\<lambda>r r'. \<exists>v. convert_price (raw_val g r) u = Inr v \<and> r' = set_disp g v r)
                (rows df) (rows df')"
proof -
  show "raw_col g \<notin> columns df \<Longrightarrow> df' = df"
    using assms by (simp add: add_disp_def)
next
  assume c: "raw_col g \<in> columns df"
  with assms obtain rs where rs: "apply_rows (convert_row u g) (rows df) = Inr rs"
    and d: "df' = df\<lparr>columns := insert (disp_col g) (columns df), rows := rs\<rparr>"
    by (auto simp: add_disp_def split: sum.splits)
  from apply_rows_all2 [OF rs]
  have "list_all2 (\<lambda>r r'. \<exists>v. convert_price (raw_val g r) u = Inr v \<and> r' = set_disp g v r)
      (rows df) rs"
    by (rule list_all2_mono) (rule convert_row_Inr)
  with d show "columns df' = insert (disp_col g) (columns df)
           \<and> list_all2 (\<lambda>r r'. \<exists>v. convert_price (raw_val g r) u = Inr v \<and> r' = set_disp g v r)
                (rows df) (rows df')"
    by simp
qed

lemma converted_refl: "converted u {} cols r r"
  by (simp add: converted_def)

lemma add_disps_converted:
  "add_disps u fs df = Inr df' \<Longrightarrow>
     list_all2 (converted u (set fs) (columns df)) (rows df) (rows df')
     \<and> (\<forall>f. raw_col f \<in> columns df' \<longleftrightarrow> raw_col f \<in> columns df)
     \<and> columns df \<subseteq> columns df'"
proof (induction fs arbitrary: df)
  case Nil
  then show ?case by (simp add: list_all2_same converted_refl)
next
  case (Cons g fs)
  from Cons.prems obtain d1 where 1: "add_disp u g df = Inr d1"
    and 2: "add_disps u fs d1 = Inr df'"
    by (auto split: sum.splits)
  note ih = Cons.IH [OF 2]
  show ?case
  proof (cases "raw_col g \<in> columns df")
    case False
    with add_disp_Inr(1) [OF 1] have e: "d1 = df" by simp
    have "converted u (set fs) (columns df) r r' \<Longrightarrow> converted u (set (g # fs)) (columns df) r r'"
      for r r' using False by (auto simp: converted_def)
    with ih [unfolded e] have "list_all2 (converted u (set (g # fs)) (columns df)) (rows df) (rows df')"
      by (blast intro: list_all2_mono)
    with ih [unfolded e] show ?thesis by blast
  next
    case True
    from add_disp_Inr(2) [OF 1 True]
    have c1: "columns d1 = insert (disp_col g) (columns df)"
      and s: "list_all2 (\<lambda>r r'. \<exists>v. convert_price (raw_val g r) u = Inr v \<and> r' = set_disp g v r)
                (rows df) (rows d1)"
      by blast+
    have m: "raw_col f \<in> columns d1 \<longleftrightarrow> raw_col f \<in> columns df" for f
      by (simp add: c1 raw_col_not_disp)
    have step: "converted u (set (g # fs)) (columns df) r r'"
      if a: "\<exists>v. convert_price (raw_val g r) u = Inr v \<and> r1 = set_disp g v r"
        and b: "converted u (set fs) (columns d1) r1 r'" for r r1 r'
    proof -
      from a obtain v where v: "convert_price (raw_val g r) u = Inr v" and r1: "r1 = set_disp g v r"
        by blast
      show ?thesis
        unfolding converted_def
      proof (intro allI conjI)
        fix f
        show "raw_val f r' = raw_val f r"
          using b by (simp add: converted_def r1 raw_val_set_disp)
        show "if f \<in> set (g # fs) \<and> raw_col f \<in> columns df
              then convert_price (raw_val f r) u = Inr (disp_val f r')
              else disp_val f r' = disp_val f r"
        proof (cases "f \<in> set fs \<and> raw_col f \<in> columns df")
          case True
          with b m have "convert_price (raw_val f r1) u = Inr (disp_val f r')"
            by (simp add: converted_def)
          with True show ?thesis by (simp add: r1 raw_val_set_disp)
        next
          case False
          with b m have d: "disp_val f r' = disp_val f r1" by (simp add: converted_def)
          show ?thesis
          proof (cases "f = g")
            case True
            with d have "disp_val f r' = v" by (simp add: r1 disp_val_set_disp)
            with True v \<open>raw_col g \<in> columns df\<close> show ?thesis by simp
          next
            case False
            with d have "disp_val f r' = disp_val f r" by (simp add: r1 disp_val_set_disp)
            with False \<open>\<not> (f \<in> set fs \<and> raw_col f \<in> columns df)\<close> show ?thesis by auto
          qed
        qed
      qed
    qed
    from ih have t: "list_all2 (converted u (set fs) (columns d1)) (rows d1) (rows df')"
      by blast
    have "list_all2 (converted u (set (g # fs)) (columns df)) (rows df) (rows df')"
      using step s t by (rule list_all2_trans)
    moreover have "\<forall>f. raw_col f \<in> columns df' \<longleftrightarrow> raw_col f \<in> columns df"
      using ih m by blast
    moreover have "columns df \<subseteq> columns df'" using ih c1 by blast
    ultimately show ?thesis by blast
  qed
qed

lemma price_cols_all: "set price_cols = UNIV"
proof -
  have "f \<in> set price_cols" for f by (cases f) (simp_all add: price_cols_def)
  then show ?thesis by blast
qed

lemma preprocess_converted:
  assumes "preprocess u raw_df = Inr df"
  shows "list_all2 (converted u UNIV (columns raw_df)) (rows raw_df) (rows df)"
    and "columns raw_df \<subseteq> columns df"
proof -
  from assms obtain d0 where 0: "add_disps u price_cols raw_df = Inr d0"
    and d: "df = add_regDate d0"
    by (auto simp: preprocess_def split: sum.splits)
  from add_disps_converted [OF 0]
  have a: "list_all2 (converted u UNIV (columns raw_df)) (rows raw_df) (rows d0)"
    and s: "columns raw_df \<subseteq> columns d0"
    by (simp_all add: price_cols_all)
  have b: "raw_val f (r\<lparr>regDate := x\<rparr>) = raw_val f r" "disp_val f (r\<lparr>regDate := x\<rparr>) = disp_val f r"
    for f r x by (cases f; simp)+
  show "columns raw_df \<subseteq> columns df"
    using s by (auto simp: d add_regDate_def)
  show "list_all2 (converted u UNIV (columns raw_df)) (rows raw_df) (rows df)"
  proof (cases "C_created_date_utc \<in> columns d0")
    case False
    then show ?thesis using a by (simp add: d add_regDate_def)
  next
    case True
    have "list_all2 (\<lambda>r r'. converted u UNIV (columns raw_df) r
            (r'\<lparr>regDate := map_option fst (created_date_utc r')\<rparr>)) (rows raw_df) (rows d0)"
      using a by (rule list_all2_mono) (simp add: converted_def b)
    then show ?thesis using True by (simp add: d add_regDate_def list_all2_map2)
  qed
qed

lemma preprocess_rows_converted:
  assumes "preprocess u raw_df = Inr df" and "r \<in> set (rows df)"
    and "raw_col f \<in> columns raw_df"
  shows "convert_price (raw_val f r) u = Inr (disp_val f r)"
proof -
  from assms(2) preprocess_converted(1) [OF assms(1)]
  obtain r0 where "converted u UNIV (columns raw_df) r0 r"
    by (auto simp: list_all2_conv_all_nth in_set_conv_nth)
  then have "raw_val f r = raw_val f r0"
    and "convert_price (raw_val f r0) u = Inr (disp_val f r)"
    using assms(3) by (simp_all add: converted_def)
  then show ?thesis by simp
qed

lemma apply_step_sub:
  "apply_step rc c t df = Inr df' \<Longrightarrow>
     set (rows df') \<subseteq> set (rows df) \<and> columns df' = columns df"
  by (cases t)
    (auto simp: filter_industry_def filter_station_def filter_premium_def filter_rent_def
      keep_def split: if_splits option.splits)

lemma run_steps_sub:
  "run_steps rc c ts df = Inr df' \<Longrightarrow>
     set (rows df') \<subseteq> set (rows df) \<and> columns df' = columns df"
proof (induction ts arbitrary: df)
  case Nil
  then show ?case by simp
next
  case (Cons t ts)
  then obtain d1 where 1: "apply_step rc c t df = Inr d1" and 2: "run_steps rc c ts d1 = Inr df'"
    by (auto split: sum.splits)
  from apply_step_sub [OF 1] Cons.IH [OF 2] show ?case by auto
qed

lemma median_nonempty:
  assumes "xs \<noteq> []"
  shows "\<exists>m. median xs = Some m"
proof -
  have n: "(length (sort xs) = 0) = False" using assms by simp
  show ?thesis
  proof (cases "odd (length (sort xs))")
    case True
    then have "median xs = Some (sort xs ! (length (sort xs) div 2))"
      unfolding median_def Let_def by (simp only: n if_False if_True simp_thms)
    then show ?thesis ..
  next
    case False
    then have "median xs = Some ((sort xs ! (length (sort xs) div 2 - 1)
        + sort xs ! (length (sort xs) div 2)) / 2)"
      unfolding median_def Let_def by (simp only: n if_False if_True simp_thms)
    then show ?thesis ..
  qed
qed

lemma kpi_median_cases:
  assumes "columns f \<noteq> {}"
  shows "rows f \<noteq> [] \<and> disp_col fld \<in> columns f \<longrightarrow>
           (\<exists>m. median (map (disp_val fld) (rows f)) = Some m
                \<and> kpi_median u fld f = format_price_display m u)"
    and "rows f = [] \<or> disp_col fld \<notin> columns f \<longrightarrow> kpi_median u fld f = ascii ''-''"
proof -
  show "rows f \<noteq> [] \<and> disp_col fld \<in> columns f \<longrightarrow>
           (\<exists>m. median (map (disp_val fld) (rows f)) = Some m
                \<and> kpi_median u fld f = format_price_display m u)"
  proof
    assume a: "rows f \<noteq> [] \<and> disp_col fld \<in> columns f"
    then obtain m where m: "median (map (disp_val fld) (rows f)) = Some m"
      using median_nonempty [of "map (disp_val fld) (rows f)"] by auto
    with a assms have "kpi_median u fld f = format_price_display m u"
      by (simp add: kpi_median_def empty_def)
    with m show "\<exists>m. median (map (disp_val fld) (rows f)) = Some m
                \<and> kpi_median u fld f = format_price_display m u"
      by blast
  qed
  show "rows f = [] \<or> disp_col fld \<notin> columns f \<longrightarrow> kpi_median u fld f = ascii ''-''"
    by (auto simp: kpi_median_def empty_def)
qed

lemma detail_of_Inr:
  assumes "detail_of img u base_comment w f = Inr det"
  shows "\<exists>item shown. item \<in> set (rows f) \<and> gallery img (columns f) item = Inr shown
           \<and> det = \<lparr>detail_title = title item, detail_photos = shown,
                    detail_metrics =
                      map (\<lambda>(fld, kor).
                             (kor, format_price_display
                                     (if disp_col fld \<in> columns f then disp_val fld item else 0) u))
                        price_map,
                    detail_comment = resolve_comment (title item) base_comment\<rparr>"
proof -
  from assms obtain t where "selectbox (unique (map title (rows f))) (detail_select w) = Some t"
    by (auto simp: detail_of_def split: if_splits option.splits)
  with assms obtain item rest where i: "filter (\<lambda>r. title r = t) (rows f) = item # rest"
    by (auto simp: detail_of_def split: if_splits list.splits)
  then have "item \<in> set (filter (\<lambda>r. title r = t) (rows f))" by simp
  then have m: "item \<in> set (rows f)" by simp
  from assms i \<open>selectbox (unique (map title (rows f))) (detail_select w) = Some t\<close>
  obtain shown where g: "gallery img (columns f) item = Inr shown"
    by (auto simp: detail_of_def split: if_splits sum.splits)
  from assms i g \<open>selectbox (unique (map title (rows f))) (detail_select w) = Some t\<close>
  have "det = \<lparr>detail_title = title item, detail_photos = shown,
                    detail_metrics =
                      map (\<lambda>(fld, kor).
                             (kor, format_price_display
                                     (if disp_col fld \<in> columns f then disp_val fld item else 0) u))
                        price_map,
                    detail_comment = resolve_comment (title item) base_comment\<rparr>"
    by (auto simp: detail_of_def item_get_def split: if_splits)
  with m g show ?thesis by blast
qed

lemma results_view_Inr:
  assumes "results_view img u base_comment w f = Inr res" and "columns f \<noteq> {}"
  shows "rows f = [] \<longrightarrow> res = Info no_result_text"
    and "rows f \<noteq> [] \<longrightarrow>
           (\<exists>det. detail_of img u base_comment w f = Inr det
                  \<and> res = Shown (map (\<lambda>r. map (\<lambda>(fld, kor).
                                  (kor, format_price_display (disp_val fld r) u))
                             (filter (\<lambda>(fld, kor). disp_col fld \<in> columns f) price_map))
                       (rows f), det))"
  using assms
  by (auto simp: results_view_def empty_def table_df_def table_row_def split: sum.splits if_splits)

lemma render_Inr:
  assumes "render img unit_choice u base_comment w f = Inr d"
  shows "kpi2 d = (label_rent @ unit_choice @ ascii '')'', kpi_median u F_monthly_rent f)"
    and "kpi3 d = (label_deposit @ u @ unit_suffix @ ascii '')'', kpi_median u F_deposit f)"
    and "results_view img u base_comment w f = Inr (results d)"
  using assms
  by (auto simp: render_def split: sum.splits)

section \<open>One render cycle on the example data\<close>

lemma not_empty_won: "\<not> empty frame_ab_won"
  by (simp add: empty_def frame_ab_won_def disp_columns_def raw_columns_def)

lemma cols_won:
  "C_monthly_rent_disp \<in> columns frame_ab_won" "C_deposit_disp \<in> columns frame_ab_won"
  "C_premium_disp \<in> columns frame_ab_won" "C_maintenance_fee_disp \<in> columns frame_ab_won"
  "C_size \<in> columns frame_ab_won" "C_regDate \<in> columns frame_ab_won"
  "C_title \<in> columns frame_ab_won" "chart_cols \<subseteq> columns frame_ab_won"
  "C_small_photo_urls \<in> columns frame_ab_won" "C_preview_photo_url \<notin> columns frame_ab_won"
  by (simp_all add: frame_ab_won_def disp_columns_def raw_columns_def chart_cols_def)

lemma vals_won:
  "length (rows frame_ab_won) = 2"
  "map monthly_rent_disp (rows frame_ab_won) = [3000000, 3000000]"
  "map (disp_val F_monthly_rent) (rows frame_ab_won) = [3000000, 3000000]"
  "map (disp_val F_deposit) (rows frame_ab_won) = [50000000, 50000000]"
  "map size_val (rows frame_ab_won) = [Some 33, Some 33]"
  "List.map_filter regDate (rows frame_ab_won) = [19000, 19000]"
  "list_all size_ok (rows frame_ab_won)"
  by (simp_all add: frame_ab_won_def listing_a_def listing_b_def List.map_filter_simps
      size_ok_def)

lemma median_won:
  "median [3000000, 3000000] = Some 3000000" "median [50000000, 50000000] = Some 50000000"
  by (simp_all add: median_def)

lemma f_df_won:
  "f_df re_dots (sidebar widgets_won frame_ab_won) frame_ab_won = Inr frame_ab_won"
proof -
  have "col_min (map monthly_rent_disp (rows frame_ab_won)) = Some 3000000"
    "col_max (map monthly_rent_disp (rows frame_ab_won)) = Some 3000000"
    by (simp_all add: vals_won col_min_def col_max_def)
  moreover have "industry_select widgets_won = all_label" "station_text widgets_won = []"
    "\<not> hide_checkbox widgets_won"
    by (simp_all add: widgets_won_def widgets_default_def)
  ultimately show ?thesis
    using degenerate_range_keeps_all [OF cols_won(1), where m = 3000000 and w = widgets_won
        and rc = re_dots]
    by blast
qed

lemma fmt_won:
  "format_price_display 50000000 won = won_sign @ ascii ''50,000,000''"
  "format_price_display 3000000 won = won_sign @ ascii ''3,000,000''"
  by (simp_all add: fmt_defs)

lemma kpi_count_won: "kpi_count frame_ab_won = ascii ''2'' @ count_suffix"
  by (simp add: kpi_count_def vals_won decimal_lt10 ascii_def)

lemma kpi_rent_won:
  "kpi_median won F_monthly_rent frame_ab_won = won_sign @ ascii ''3,000,000''"
  by (simp add: kpi_median_def not_empty_won cols_won vals_won median_won fmt_won)

lemma kpi_deposit_won:
  "kpi_median won F_deposit frame_ab_won = won_sign @ ascii ''50,000,000''"
  by (simp add: kpi_median_def not_empty_won cols_won vals_won median_won fmt_won)

lemma kpi_area_won: "kpi_area frame_ab_won = ascii ''33.0'' @ area_suffix"
  by (simp add: kpi_area_def not_empty_won cols_won vals_won mean_def fmt_1f_def
      round_half_even_def decimal_lt10 decimal_ge10 ascii_def List.map_filter_simps)

lemma charts_won: "charts_view frame_ab_won = Inr (Shown ())"
  by (simp add: charts_view_def not_empty_won cols_won vals_won)

lemma trend_won: "trend_view frame_ab_won = Shown [(19000, 2)]"
  by (simp add: trend_view_def not_empty_won cols_won group_by_date_def vals_won)

lemma table_row_won:
  "disp_val F_deposit r = 50000000 \<Longrightarrow> disp_val F_monthly_rent r = 3000000 \<Longrightarrow>
   disp_val F_premium r = 0 \<Longrightarrow> disp_val F_maintenance_fee r = 0 \<Longrightarrow>
   table_row won (columns frame_ab_won) r = price_cells_won"
  by (simp add: table_row_def price_map_def cols_won fmt_won fmt_zero_any price_cells_won_def)

lemma table_won: "table_df won frame_ab_won = [price_cells_won, price_cells_won]"
proof -
  have "table_row won (columns frame_ab_won) (rows frame_ab_won ! 0) = price_cells_won"
    by (rule table_row_won) (simp_all add: frame_ab_won_def listing_a_def)
  moreover have "table_row won (columns frame_ab_won) (rows frame_ab_won ! 1) = price_cells_won"
    by (rule table_row_won) (simp_all add: frame_ab_won_def listing_a_def listing_b_def)
  moreover have "map f (rows frame_ab_won) = [f (rows frame_ab_won ! 0), f (rows frame_ab_won ! 1)]"
    for f :: "listing \<Rightarrow> (pystr \<times> pystr) list"
    by (simp add: frame_ab_won_def)
  ultimately show ?thesis
    unfolding table_df_def by simp
qed

lemma titles_won:
  "map title (rows frame_ab_won) = [ascii ''Cafe A'', marker @ ascii '' B'']"
  by (simp add: frame_ab_won_def listing_a_def listing_b_def)

lemma select_won:
  "selectbox (unique (map title (rows frame_ab_won))) (detail_select widgets_won)
     = Some (ascii ''Cafe A'')"
  by (simp add: titles_won unique_def selectbox_def widgets_won_def widgets_default_def
      ascii_def marker_def)

lemma item_won:
  "filter (\<lambda>r. title r = ascii ''Cafe A'') (rows frame_ab_won) = [rows frame_ab_won ! 0]"
  by (simp add: frame_ab_won_def listing_a_def listing_b_def ascii_def marker_def)

lemma gallery_won:
  "gallery image_one (columns frame_ab_won) (rows frame_ab_won ! 0) = Inr [JStr photo_url]"
proof -
  have "small_photo_urls (rows frame_ab_won ! 0) = Items [JStr photo_url]"
    by (simp add: frame_ab_won_def listing_a_def)
  then show ?thesis
    by (simp add: gallery_def cols_won cell_truthy_def image_one_def)
qed

lemma detail_won:
  "detail_of image_one won (ascii ''note'') widgets_won frame_ab_won =
     Inr \<lparr>detail_title = ascii ''Cafe A'', detail_photos = [JStr photo_url],
          detail_metrics = price_cells_won, detail_comment = unavailable_text\<rparr>"
proof -
  have t: "title (rows frame_ab_won ! 0) = ascii ''Cafe A''"
    by (simp add: frame_ab_won_def listing_a_def)
  have v: "deposit_disp (rows frame_ab_won ! 0) = 50000000"
    "monthly_rent_disp (rows frame_ab_won ! 0) = 3000000"
    "premium_disp (rows frame_ab_won ! 0) = 0"
    "maintenance_fee_disp (rows frame_ab_won ! 0) = 0"
    by (simp_all add: frame_ab_won_def listing_a_def)
  have c: "resolve_comment (ascii ''Cafe A'') (ascii ''note'') = unavailable_text"
    by (simp add: resolve_comment_def marker_def ascii_def)
  show ?thesis
    by (simp add: detail_of_def cols_won select_won item_won gallery_won t v c price_map_def
        item_get_def fmt_won fmt_zero_any price_cells_won_def)
qed

lemma render_won:
  "render image_one won won (ascii ''note'') widgets_won frame_ab_won = Inr dashboard_won"
  by (simp add: render_def charts_won results_view_def not_empty_won detail_won table_won
      kpi_count_won kpi_rent_won kpi_deposit_won kpi_area_won trend_won dashboard_won_def)

lemma app_won:
  "app re_dots image_one widgets_won (ascii ''note'') frame_ab = Inr (Rendered dashboard_won)"
proof -
  have "\<not> empty frame_ab" by (simp add: empty_def frame_ab_def raw_columns_def)
  moreover have "unit_choice_of widgets_won = won"
    by (simp add: unit_choice_of_def widgets_won_def)
  moreover have "target_unit_of won = won"
    by (simp add: target_unit_of_def)
  ultimately show ?thesis
    by (simp add: app_def preprocess_frame_ab_won f_df_won render_won)
qed

section \<open>Properties of the display unit\<close>

text \<open>
  C9: in one render cycle a single display unit is used.  The unit \<open>u\<close> is fixed by the
  radio button alone, \<open>won\<close> when that is chosen and \<open>man\<close> otherwise.  Every row of the
  preprocessed table carries, for each of the five price fields whose column exists,
  what \<open>convert_price\<close> returns for the stored value and \<open>u\<close>, and so does every row of
  the filtered table that the views read.  The labels of the two median metrics name
  the chosen unit, and every price text of the page is \<open>format_price_display\<close> at \<open>u\<close>
  of a value of those display columns: the two medians, each price cell of the result
  table, and each metric of the detail panel.
\<close>

theorem single_display_unit:
  assumes "app rc img w base_comment raw_df = Inr (Rendered d)"
  shows "\<exists>u df f.
       u = (if unit_radio w = won then won else man)
     \<and> preprocess u raw_df = Inr df
     \<and> list_all2 (converted u UNIV (columns raw_df)) (rows raw_df) (rows df)
     \<and> f_df rc (sidebar w df) df = Inr f
     \<and> (\<forall>r\<in>set (rows f). \<forall>fld. raw_col fld \<in> columns raw_df \<longrightarrow>
            convert_price (raw_val fld r) u = Inr (disp_val fld r))
     \<and> fst (kpi2 d) = label_rent @ (if unit_radio w = won then won else manwon) @ ascii '')''
     \<and> fst (kpi3 d) = label_deposit @ u @ unit_suffix @ ascii '')''
     \<and> (rows f \<noteq> [] \<and> C_monthly_rent_disp \<in> columns f \<longrightarrow>
          (\<exists>m. median (map (disp_val F_monthly_rent) (rows f)) = Some m
               \<and> snd (kpi2 d) = format_price_display m u))
     \<and> (rows f = [] \<or> C_monthly_rent_disp \<notin> columns f \<longrightarrow> snd (kpi2 d) = ascii ''-'')
     \<and> (rows f \<noteq> [] \<and> C_deposit_disp \<in> columns f \<longrightarrow>
          (\<exists>m. median (map (disp_val F_deposit) (rows f)) = Some m
               \<and> snd (kpi3 d) = format_price_display m u))
     \<and> (rows f = [] \<or> C_deposit_disp \<notin> columns f \<longrightarrow> snd (kpi3 d) = ascii ''-'')
     \<and> (rows f = [] \<longrightarrow> results d = Info no_result_text)
     \<and> (rows f \<noteq> [] \<longrightarrow>
          (\<exists>item shown. item \<in> set (rows f)
             \<and> results d =
                 Shown (map (\<lambda>r. map (\<lambda>(fld, kor).
                                  (kor, format_price_display (disp_val fld r) u))
                             (filter (\<lambda>(fld, kor). disp_col fld \<in> columns f) price_map))
                          (rows f),
                        \<lparr>detail_title = title item, detail_photos = shown,
                         detail_metrics =
                           map (\<lambda>(fld, kor).
                                  (kor, format_price_display
                                          (if disp_col fld \<in> columns f then disp_val fld item
                                           else 0) u))
                             price_map,
                         detail_comment = resolve_comment (title item) base_comment\<rparr>)))"
proof -
  define u where "u = (if unit_radio w = won then won else man)"
  have uc: "unit_choice_of w = (if unit_radio w = won then won else manwon)"
    by (simp add: unit_choice_of_def)
  have tu: "target_unit_of (unit_choice_of w) = u"
    by (simp add: target_unit_of_def unit_choice_of_def u_def manwon_def won_def)
  from assms have ne: "\<not> empty raw_df"
    by (auto simp: app_def split: if_splits)
  with assms tu obtain df f where
    p: "preprocess u raw_df = Inr df" and
    f: "f_df rc (sidebar w df) df = Inr f" and
    r: "render img (unit_choice_of w) u base_comment w f = Inr d"
    by (auto simp: app_def Let_def split: sum.splits)
  from f have sub: "set (rows f) \<subseteq> set (rows df)" and cf: "columns f = columns df"
    unfolding f_df_def by (blast dest: run_steps_sub)+
  from ne preprocess_converted(2) [OF p] cf have c0: "columns f \<noteq> {}"
    by (auto simp: empty_def)
  have 1: "list_all2 (converted u UNIV (columns raw_df)) (rows raw_df) (rows df)"
    by (rule preprocess_converted(1) [OF p])
  have 2: "\<forall>r\<in>set (rows f). \<forall>fld. raw_col fld \<in> columns raw_df \<longrightarrow>
            convert_price (raw_val fld r) u = Inr (disp_val fld r)"
    using sub preprocess_rows_converted [OF p] by blast
  have 3: "fst (kpi2 d) = label_rent @ (if unit_radio w = won then won else manwon) @ ascii '')''"
    and 4: "fst (kpi3 d) = label_deposit @ u @ unit_suffix @ ascii '')''"
    and k2: "snd (kpi2 d) = kpi_median u F_monthly_rent f"
    and k3: "snd (kpi3 d) = kpi_median u F_deposit f"
    using render_Inr(1,2) [OF r] by (simp_all add: uc)
  have 5: "rows f \<noteq> [] \<and> C_monthly_rent_disp \<in> columns f \<longrightarrow>
          (\<exists>m. median (map (disp_val F_monthly_rent) (rows f)) = Some m
               \<and> snd (kpi2 d) = format_price_display m u)"
    and 6: "rows f = [] \<or> C_monthly_rent_disp \<notin> columns f \<longrightarrow> snd (kpi2 d) = ascii ''-''"
    using kpi_median_cases [OF c0, of F_monthly_rent u] by (simp_all add: k2)
  have 7: "rows f \<noteq> [] \<and> C_deposit_disp \<in> columns f \<longrightarrow>
          (\<exists>m. median (map (disp_val F_deposit) (rows f)) = Some m
               \<and> snd (kpi3 d) = format_price_display m u)"
    and 8: "rows f = [] \<or> C_deposit_disp \<notin> columns f \<longrightarrow> snd (kpi3 d) = ascii ''-''"
    using kpi_median_cases [OF c0, of F_deposit u] by (simp_all add: k3)
  note rv = results_view_Inr [OF render_Inr(3) [OF r] c0]
  have 9: "rows f = [] \<longrightarrow> results d = Info no_result_text"
    by (rule rv(1))
  have 10: "rows f \<noteq> [] \<longrightarrow>
          (\<exists>item shown. item \<in> set (rows f)
             \<and> results d =
                 Shown (map (\<lambda>r. map (\<lambda>(fld, kor).
                                  (kor, format_price_display (disp_val fld r) u))
                             (filter (\<lambda>(fld, kor). disp_col fld \<in> columns f) price_map))
                          (rows f),
                        \<lparr>detail_title = title item, detail_photos = shown,
                         detail_metrics =
                           map (\<lambda>(fld, kor).
                                  (kor, format_price_display
                                          (if disp_col fld \<in> columns f then disp_val fld item
                                           else 0) u))
                             price_map,
                         detail_comment = resolve_comment (title item) base_comment\<rparr>))"
  proof
    assume "rows f \<noteq> []"
    with rv(2) obtain det where dt: "detail_of img u base_comment w f = Inr det"
      and rs: "results d = Shown (map (\<lambda>r. map (\<lambda>(fld, kor).
                                  (kor, format_price_display (disp_val fld r) u))
                             (filter (\<lambda>(fld, kor). disp_col fld \<in> columns f) price_map))
                       (rows f), det)"
      by blast
    from detail_of_Inr [OF dt] rs
    show "\<exists>item shown. item \<in> set (rows f)
             \<and> results d =
                 Shown (map (\<lambda>r. map (\<lambda>(fld, kor).
                                  (kor, format_price_display (disp_val fld r) u))
                             (filter (\<lambda>(fld, kor). disp_col fld \<in> columns f) price_map))
                          (rows f),
                        \<lparr>detail_title = title item, detail_photos = shown,
                         detail_metrics =
                           map (\<lambda>(fld, kor).
                                  (kor, format_price_display
                                          (if disp_col fld \<in> columns f then disp_val fld item
                                           else 0) u))
                             price_map,
                         detail_comment = resolve_comment (title item) base_comment\<rparr>)"
      by blast
  qed
  show ?thesis
    unfolding u_def [symmetric]
    using p 1 f 2 3 4 5 6 7 8 9 10 by blast
qed

theorem single_display_unit_witness:
  "app re_dots image_one widgets_won (ascii ''note'') frame_ab = Inr (Rendered dashboard_won)
   \<and> unit_radio widgets_won = won
   \<and> preprocess won frame_ab = Inr frame_ab_won
   \<and> f_df re_dots (sidebar widgets_won frame_ab_won) frame_ab_won = Inr frame_ab_won
   \<and> list_all2 (converted won UNIV (columns frame_ab)) (rows frame_ab) (rows frame_ab_won)
   \<and> fst (kpi2 dashboard_won) = label_rent @ won @ ascii '')''
   \<and> fst (kpi3 dashboard_won) = label_deposit @ won @ unit_suffix @ ascii '')''
   \<and> snd (kpi2 dashboard_won) = format_price_display 3000000 won
   \<and> snd (kpi3 dashboard_won) = format_price_display 50000000 won"
proof -
  have w: "unit_radio widgets_won = won"
    by (simp add: widgets_won_def)
  from single_display_unit [OF app_won] obtain u df f where
    u: "u = (if unit_radio widgets_won = won then won else man)" and
    p: "preprocess u frame_ab = Inr df" and
    c: "list_all2 (converted u UNIV (columns frame_ab)) (rows frame_ab) (rows df)" and
    f: "f_df re_dots (sidebar widgets_won df) df = Inr f" and
    l2: "fst (kpi2 dashboard_won)
           = label_rent @ (if unit_radio widgets_won = won then won else manwon) @ ascii '')''" and
    l3: "fst (kpi3 dashboard_won) = label_deposit @ u @ unit_suffix @ ascii '')''" and
    k2: "rows f \<noteq> [] \<and> C_monthly_rent_disp \<in> columns f \<longrightarrow>
          (\<exists>m. median (map (disp_val F_monthly_rent) (rows f)) = Some m
               \<and> snd (kpi2 dashboard_won) = format_price_display m u)" and
    k3: "rows f \<noteq> [] \<and> C_deposit_disp \<in> columns f \<longrightarrow>
          (\<exists>m. median (map (disp_val F_deposit) (rows f)) = Some m
               \<and> snd (kpi3 dashboard_won) = format_price_display m u)"
    by blast
  from u w have uw: "u = won" by simp
  from p uw preprocess_frame_ab_won have d: "df = frame_ab_won" by simp
  from f d f_df_won have e: "f = frame_ab_won" by simp
  have ne: "rows frame_ab_won \<noteq> []"
    using vals_won(1) by auto
  from k2 e uw ne cols_won(1) vals_won(3) median_won(1)
  have a2: "snd (kpi2 dashboard_won) = format_price_display 3000000 won"
    by simp
  from k3 e uw ne cols_won(2) vals_won(4) median_won(2)
  have a3: "snd (kpi3 dashboard_won) = format_price_display 50000000 won"
    by simp
  from l2 w have b2: "fst (kpi2 dashboard_won) = label_rent @ won @ ascii '')''"
    by simp
  from l3 uw have b3: "fst (kpi3 dashboard_won) = label_deposit @ won @ unit_suffix @ ascii '')''"
    by simp
  from c uw d
  have c': "list_all2 (converted won UNIV (columns frame_ab)) (rows frame_ab) (rows frame_ab_won)"
    by simp
  from app_won w preprocess_frame_ab_won f_df_won c' b2 b3 a2 a3 show ?thesis
    by blast
qed

end
